theory Spec2Isabelle
  imports Main "HOL-Library.Log_Nat"
begin

section \<open>Python floats: IEEE 754 binary64, round to nearest, ties to even\<close>

text \<open>
  The scores of \<^verbatim>\<open>milestone_verifier.py\<close> are Python floats, and the
  thresholds of the program are compared against sums of rounded constants
  (\<^verbatim>\<open>0.5 + 0.2 + 0.1\<close> is not \<^verbatim>\<open>0.8\<close>), so the arithmetic is
  modelled with its rounding. A finite double is the rational number it denotes; every
  operation computes the exact rational result and rounds it to 53 significant bits.
\<close>

definition rhe :: "rat \<Rightarrow> int" where
  \<comment> \<open>round to the nearest integer, a tie to the even one\<close>
  "rhe m = (let f = \<lfloor>m\<rfloor>; r = m - of_int f in
     if r < 1/2 then f else if 1/2 < r then f + 1 else if even f then f else f + 1)"

definition expo :: "rat \<Rightarrow> int" where
  \<comment> \<open>the binary exponent \<open>e\<close> of a non-zero \<open>x\<close>: \<open>2^e \<le> |x| < 2^(e+1)\<close>\<close>
  "expo x = (let (p, q) = quotient_of \<bar>x\<bar>; e0 = bitlen p - bitlen q in
     if 2 powi e0 \<le> \<bar>x\<bar> then e0 else e0 - 1)"

definition rnd :: "rat \<Rightarrow> rat" where
  \<comment> \<open>the nearest multiple of the unit in the last place (subnormals below \<open>2^-1022\<close>)\<close>
  "rnd x = (if x = 0 then 0 else
     let u = 2 powi (max (expo x) (- 1022) - 52) in of_int (rhe (x / u)) * u)"

datatype double = Finite rat | NegZero | PosInf | NegInf | NaN

definition rv :: "double \<Rightarrow> rat" where
  "rv d = (case d of Finite q \<Rightarrow> q | _ \<Rightarrow> 0)"

definition sgn_neg :: "double \<Rightarrow> bool" where
  "sgn_neg d = (case d of Finite q \<Rightarrow> q < 0 | NegZero \<Rightarrow> True | NegInf \<Rightarrow> True | _ \<Rightarrow> False)"

definition is_inf :: "double \<Rightarrow> bool" where
  "is_inf d = (d = PosInf \<or> d = NegInf)"

definition is_zero :: "double \<Rightarrow> bool" where
  "is_zero d = (d = Finite 0 \<or> d = NegZero)"

definition is_double :: "double \<Rightarrow> bool" where
  \<comment> \<open>the values of the datatype that are doubles: the representable rationals\<close>
  "is_double d = (case d of Finite q \<Rightarrow> rnd q = q \<and> expo q < 1024 | _ \<Rightarrow> True)"

definition to_double :: "bool \<Rightarrow> rat \<Rightarrow> double" where
  \<comment> \<open>the double of an exact result \<open>x\<close> whose sign is \<open>neg\<close>: zero keeps the sign,
      a rounded magnitude of \<open>2^1024\<close> or more (exponent 1024 or more) overflows
      to an infinity\<close>
  "to_double neg x = (let r = rnd x in
     if r = 0 then (if neg then NegZero else Finite 0)
     else if 1024 \<le> expo r then (if neg then NegInf else PosInf)
     else Finite r)"

definition fmul :: "double \<Rightarrow> double \<Rightarrow> double" where
  "fmul a b =
     (if a = NaN \<or> b = NaN then NaN
      else if is_inf a \<or> is_inf b then
        (if is_zero a \<or> is_zero b then NaN
         else if sgn_neg a \<noteq> sgn_neg b then NegInf else PosInf)
      else to_double (sgn_neg a \<noteq> sgn_neg b) (rv a * rv b))"

definition fadd :: "double \<Rightarrow> double \<Rightarrow> double" where
  "fadd a b =
     (if a = NaN \<or> b = NaN then NaN
      else if is_inf a then (if is_inf b \<and> a \<noteq> b then NaN else a)
      else if is_inf b then b
      else let s = rv a + rv b in
        if s = 0 then (if sgn_neg a \<and> sgn_neg b then NegZero else Finite 0)
        else to_double (s < 0) s)"

definition fneg :: "double \<Rightarrow> double" where
  "fneg a = (case a of Finite q \<Rightarrow> (if q = 0 then NegZero else Finite (- q))
     | NegZero \<Rightarrow> Finite 0 | PosInf \<Rightarrow> NegInf | NegInf \<Rightarrow> PosInf | NaN \<Rightarrow> NaN)"

definition fsub :: "double \<Rightarrow> double \<Rightarrow> double" where
  "fsub a b = fadd a (fneg b)"

definition flt :: "double \<Rightarrow> double \<Rightarrow> bool" where
  \<comment> \<open>\<^verbatim>\<open>a < b\<close>: false when either side is NaN; the two zeros are equal\<close>
  "flt a b =
     (if a = NaN \<or> b = NaN then False
      else if a = PosInf \<or> b = NegInf then False
      else if a = NegInf \<or> b = PosInf then True
      else rv a < rv b)"

definition fle :: "double \<Rightarrow> double \<Rightarrow> bool" where
  "fle a b =
     (if a = NaN \<or> b = NaN then False
      else if a = NegInf \<or> b = PosInf then True
      else if a = PosInf \<or> b = NegInf then False
      else rv a \<le> rv b)"

definition fgt :: "double \<Rightarrow> double \<Rightarrow> bool" where
  "fgt a b = flt b a"

definition fge :: "double \<Rightarrow> double \<Rightarrow> bool" where
  "fge a b = fle b a"

definition lit :: "rat \<Rightarrow> double" where
  \<comment> \<open>a decimal literal of the source denotes the double nearest to it; the literals are
      written as fractions in lowest terms: \<^verbatim>\<open>0.5\<close> is \<open>lit (1/2)\<close>, \<^verbatim>\<open>0.4\<close> is \<open>lit (2/5)\<close>\<close>
  "lit q = to_double (q < 0) q"

definition py_min :: "double \<Rightarrow> double \<Rightarrow> double" where
  \<comment> \<open>\<^verbatim>\<open>min(a, b)\<close> returns \<open>a\<close> unless \<open>b < a\<close>\<close>
  "py_min a b = (if flt b a then b else a)"

section \<open>Python values, dictionaries and exceptions\<close>

text \<open>
  A value is one of the JSON-like values the agent handles. A string is the list of its
  characters, one \<open>char\<close> for each code point, so that \<open>length\<close> is Python's
  \<^verbatim>\<open>len\<close> (the model covers the strings of code points below 256). A dict is the list
  of its entries in insertion order, the keys distinct. An exception is the name of its
  class and its message, \<^verbatim>\<open>str(e)\<close>.
\<close>

datatype pyval =
    PNone
  | PBool bool
  | PInt int
  | PFloat double
  | PStr string
  | PList "pyval list"
  | PDict "(string \<times> pyval) list"

type_synonym pydict = "(string \<times> pyval) list"

datatype pyexc = PyExc (exc_class: string) (exc_str: string)

definition bind_exc :: "pyexc + 'a \<Rightarrow> ('a \<Rightarrow> pyexc + 'b) \<Rightarrow> pyexc + 'b" where
  "bind_exc m f = (case m of Inl e \<Rightarrow> Inl e | Inr x \<Rightarrow> f x)"

definition dict_get :: "pydict \<Rightarrow> string \<Rightarrow> pyval \<Rightarrow> pyval" where
  \<comment> \<open>\<^verbatim>\<open>d.get(key, default)\<close>\<close>
  "dict_get d k dflt = (case map_of d k of None \<Rightarrow> dflt | Some v \<Rightarrow> v)"

definition quoted :: "string \<Rightarrow> string" where
  "quoted s = CHR 0x27 # s @ [CHR 0x27]"

definition type_name :: "pyval \<Rightarrow> string" where
  "type_name v = (case v of PNone \<Rightarrow> ''NoneType'' | PBool _ \<Rightarrow> ''bool'' | PInt _ \<Rightarrow> ''int''
     | PFloat _ \<Rightarrow> ''float'' | PStr _ \<Rightarrow> ''str'' | PList _ \<Rightarrow> ''list'' | PDict _ \<Rightarrow> ''dict'')"

definition truthy :: "pyval \<Rightarrow> bool" where
  \<comment> \<open>the truth value Python gives a value in \<^verbatim>\<open>and\<close>, \<^verbatim>\<open>or\<close>, \<^verbatim>\<open>not\<close>, \<^verbatim>\<open>if\<close>\<close>
  "truthy v = (case v of PNone \<Rightarrow> False | PBool b \<Rightarrow> b | PInt n \<Rightarrow> n \<noteq> 0
     | PFloat d \<Rightarrow> \<not> is_zero d | PStr s \<Rightarrow> s \<noteq> [] | PList xs \<Rightarrow> xs \<noteq> [] | PDict kvs \<Rightarrow> kvs \<noteq> [])"

definition int_to_float :: "int \<Rightarrow> pyexc + double" where
  \<comment> \<open>the conversion of an int operand: correctly rounded, OverflowError beyond the range\<close>
  "int_to_float n = (let r = rnd (of_int n) in
     if 1024 \<le> expo r then Inl (PyExc ''OverflowError'' ''int too large to convert to float'')
     else Inr (Finite r))"

definition mul_float :: "pyval \<Rightarrow> double \<Rightarrow> pyexc + double" where
  \<comment> \<open>\<^verbatim>\<open>v * c\<close> for a float \<open>c\<close>: a bool is an int, an int is converted,
      a sequence or any other value raises TypeError\<close>
  "mul_float v c = (case v of
       PFloat d \<Rightarrow> Inr (fmul d c)
     | PInt n \<Rightarrow> bind_exc (int_to_float n) (\<lambda>d. Inr (fmul d c))
     | PBool b \<Rightarrow> Inr (fmul (Finite (if b then 1 else 0)) c)
     | PStr _ \<Rightarrow> Inl (PyExc ''TypeError'' (''can't multiply sequence by non-int of type '' @ quoted ''float''))
     | PList _ \<Rightarrow> Inl (PyExc ''TypeError'' (''can't multiply sequence by non-int of type '' @ quoted ''float''))
     | _ \<Rightarrow> Inl (PyExc ''TypeError'' (''unsupported operand type(s) for *: '' @ quoted (type_name v)
              @ '' and '' @ quoted ''float'')))"

definition py_str :: "(pyval \<Rightarrow> string) \<Rightarrow> pyval \<Rightarrow> string" where
  \<comment> \<open>\<^verbatim>\<open>str(v)\<close>, as an f-string applies it: a string is itself; how Python displays
      any other value (numbers, containers) is the function \<open>render\<close> given to the model\<close>
  "py_str render v = (case v of PStr s \<Rightarrow> s | _ \<Rightarrow> render v)"

section \<open>The agent\<close>

record verifier =
  confidence_threshold :: double

subsection \<open>\<^verbatim>\<open>combine_results\<close>\<close>

definition evidence_weight :: double where "evidence_weight = lit (2/5)"
definition agent_weight :: double where "agent_weight = lit (3/5)"

definition evidence_score_of :: "pydict \<Rightarrow> pyexc + double" where
  "evidence_score_of evidence_analysis =
     bind_exc (mul_float (dict_get evidence_analysis ''relevance'' (PFloat (lit (1/2)))) (lit (2/5))) (\<lambda>t1.
     bind_exc (mul_float (dict_get evidence_analysis ''completeness'' (PFloat (lit (1/2)))) (lit (3/10))) (\<lambda>t2.
     bind_exc (mul_float (dict_get evidence_analysis ''authenticity'' (PFloat (lit (1/2)))) (lit (3/10))) (\<lambda>t3.
     Inr (fadd (fadd t1 t2) t3))))"

definition combined_confidence_of :: "pydict \<Rightarrow> pydict \<Rightarrow> pyexc + double" where
  "combined_confidence_of evidence_analysis agent_verdict =
     bind_exc (evidence_score_of evidence_analysis) (\<lambda>evidence_score.
     bind_exc (mul_float (dict_get agent_verdict ''confidence'' (PFloat (lit (1/2)))) agent_weight) (\<lambda>t.
     Inr (fadd (fmul evidence_score evidence_weight) t)))"

definition decide_verdict :: "verifier \<Rightarrow> double \<Rightarrow> pydict \<Rightarrow> string" where
  "decide_verdict self combined_confidence agent_verdict =
     (if fge combined_confidence (confidence_threshold self)
         \<and> truthy (dict_get agent_verdict ''approved'' (PBool False))
      then ''approved''
      else if flt combined_confidence (fsub (Finite 1) (confidence_threshold self))
         \<or> \<not> truthy (dict_get agent_verdict ''approved'' (PBool False))
      then ''rejected''
      else ''uncertain'')"

definition combine_results ::
  "(pyval \<Rightarrow> string) \<Rightarrow> verifier \<Rightarrow> pydict \<Rightarrow> pydict \<Rightarrow> pyexc + pydict" where
  "combine_results render self evidence_analysis agent_verdict =
     bind_exc (combined_confidence_of evidence_analysis agent_verdict) (\<lambda>combined_confidence.
     Inr [(''verdict'', PStr (decide_verdict self combined_confidence agent_verdict)),
          (''confidence'', PFloat combined_confidence),
          (''reasoning'', PStr (py_str render (dict_get evidence_analysis ''reasoning'' (PStr ''''))
               @ ''. '' @ py_str render (dict_get agent_verdict ''reasoning'' (PStr '''')))),
          (''details'', PDict [(''evidence_analysis'', PDict evidence_analysis),
                               (''agent_verdict'', PDict agent_verdict),
                               (''combined_score'', PFloat combined_confidence)])])"

subsection \<open>Built-in operations of \<^verbatim>\<open>get_mock_agent_response\<close>\<close>

definition attr_get :: "pyval \<Rightarrow> string \<Rightarrow> pyval \<Rightarrow> pyexc + pyval" where
  \<comment> \<open>\<^verbatim>\<open>v.get(key, default)\<close> on any value: only a dict has the method\<close>
  "attr_get v k dflt = (case v of
       PDict d \<Rightarrow> Inr (dict_get d k dflt)
     | _ \<Rightarrow> Inl (PyExc ''AttributeError''
              (quoted (type_name v) @ '' object has no attribute '' @ quoted ''get'')))"

definition py_len :: "pyval \<Rightarrow> pyexc + nat" where
  "py_len v = (case v of
       PStr s \<Rightarrow> Inr (length s)
     | PList xs \<Rightarrow> Inr (length xs)
     | PDict kvs \<Rightarrow> Inr (length kvs)
     | _ \<Rightarrow> Inl (PyExc ''TypeError'' (''object of type '' @ quoted (type_name v) @ '' has no len()'')))"

definition int_gt :: "int \<Rightarrow> double \<Rightarrow> bool" where
  \<comment> \<open>an int against a float: Python compares the exact values\<close>
  "int_gt n c = (case c of Finite q \<Rightarrow> q < of_int n | NegZero \<Rightarrow> 0 < n
     | PosInf \<Rightarrow> False | NegInf \<Rightarrow> True | NaN \<Rightarrow> False)"

definition gt_float :: "pyval \<Rightarrow> double \<Rightarrow> pyexc + bool" where
  \<comment> \<open>\<^verbatim>\<open>v > c\<close> for a float \<open>c\<close>\<close>
  "gt_float v c = (case v of
       PFloat d \<Rightarrow> Inr (fgt d c)
     | PInt n \<Rightarrow> Inr (int_gt n c)
     | PBool b \<Rightarrow> Inr (int_gt (if b then 1 else 0) c)
     | _ \<Rightarrow> Inl (PyExc ''TypeError'' (quoted ''>'' @ '' not supported between instances of ''
              @ quoted (type_name v) @ '' and '' @ quoted ''float'')))"

definition digit_char :: "nat \<Rightarrow> char" where
  "digit_char n = ''0123456789'' ! n"

function str_nat :: "nat \<Rightarrow> string" where
  "str_nat n = (if n < 10 then [digit_char n] else str_nat (n div 10) @ [digit_char (n mod 10)])"
  by pat_completeness auto
termination
  by (relation "measure id") auto

definition fixed2 :: "bool \<Rightarrow> rat \<Rightarrow> string" where
  \<comment> \<open>sign, integer part, point, two digits: the magnitude \<open>a\<close> rounded to hundredths,
      a tie to the even one\<close>
  "fixed2 neg a = (let n = nat (rhe (a * 100)) in
     (if neg then ''-'' else []) @ str_nat (n div 100) @ ''.''
       @ [digit_char (n mod 100 div 10), digit_char (n mod 10)])"

definition format_2f_double :: "double \<Rightarrow> string" where
  "format_2f_double d = (case d of Finite q \<Rightarrow> fixed2 (q < 0) \<bar>q\<bar> | NegZero \<Rightarrow> ''-0.00''
     | PosInf \<Rightarrow> ''inf'' | NegInf \<Rightarrow> ''-inf'' | NaN \<Rightarrow> ''nan'')"

definition format_2f :: "pyval \<Rightarrow> pyexc + string" where
  \<comment> \<open>\<^verbatim>\<open>f"{v:.2f}"\<close>\<close>
  "format_2f v = (case v of
       PFloat d \<Rightarrow> Inr (format_2f_double d)
     | PInt n \<Rightarrow> bind_exc (int_to_float n) (\<lambda>d. Inr (format_2f_double d))
     | PBool b \<Rightarrow> Inr (format_2f_double (Finite (if b then 1 else 0)))
     | PStr _ \<Rightarrow> Inl (PyExc ''ValueError'' (''Unknown format code '' @ quoted ''f''
              @ '' for object of type '' @ quoted ''str''))
     | _ \<Rightarrow> Inl (PyExc ''TypeError'' (''unsupported format string passed to ''
              @ type_name v @ ''.__format__'')))"

subsection \<open>\<^verbatim>\<open>get_mock_agent_response\<close>\<close>

definition description_long :: "pyval \<Rightarrow> pyexc + bool" where
  \<comment> \<open>\<^verbatim>\<open>description and len(description) > 50\<close>\<close>
  "description_long description =
     (if truthy description then bind_exc (py_len description) (\<lambda>n. Inr (50 < n)) else Inr False)"

definition add_if :: "bool \<Rightarrow> double \<Rightarrow> double \<Rightarrow> double" where
  \<comment> \<open>\<^verbatim>\<open>if c: base_confidence += x\<close>\<close>
  "add_if c x base_confidence = (if c then fadd base_confidence x else base_confidence)"

definition recommendations_fixed :: pyval where
  "recommendations_fixed = PList [PStr ''Consider providing more detailed evidence'',
     PStr ''Ensure milestone deliverables are clearly defined'']"

definition get_mock_agent_response :: "verifier \<Rightarrow> pydict \<Rightarrow> pyexc + pydict" where
  "get_mock_agent_response self request =
     bind_exc (attr_get (dict_get request ''context'' (PDict [])) ''description'' (PStr [])) (\<lambda>description.
     bind_exc (attr_get (dict_get request ''context'' (PDict [])) ''evidence_analysis'' (PDict [])) (\<lambda>evidence_analysis.
     bind_exc (description_long description) (\<lambda>c1.
     bind_exc (bind_exc (attr_get evidence_analysis ''relevance'' (PFloat (lit (1/2))))
                 (\<lambda>v. gt_float v (lit (7/10)))) (\<lambda>c2.
     bind_exc (bind_exc (attr_get evidence_analysis ''completeness'' (PFloat (lit (1/2))))
                 (\<lambda>v. gt_float v (lit (7/10)))) (\<lambda>c3.
     let base_confidence =
           add_if c3 (lit (1/10)) (add_if c2 (lit (1/5)) (add_if c1 (lit (1/5)) (lit (1/2))));
         confidence = py_min base_confidence (lit 1);
         approved = fge confidence (confidence_threshold self)
     in
     bind_exc (py_len description) (\<lambda>n.
     bind_exc (bind_exc (attr_get evidence_analysis ''relevance'' (PFloat (lit (1/2)))) format_2f) (\<lambda>rel.
     Inr [(''approved'', PBool approved),
          (''confidence'', PFloat confidence),
          (''reasoning'', PStr (''Mock agent analysis: Description length='' @ str_nat n
               @ '', Evidence relevance='' @ rel)),
          (''recommendations'', recommendations_fixed)])))))))"

subsection \<open>The outside world\<close>

text \<open>
  The knowledge service, the environment, the HTTP call, the transport and the clock are
  not code of the agent: each is a field of the world the agent runs in. A call that can
  raise returns a sum; \<open>pyexc\<close> stands for the exceptions \<^verbatim>\<open>except Exception\<close> catches.
  Log calls have no effect on a result and are left out.
\<close>

record world =
  metta_query :: "pydict \<Rightarrow> string \<Rightarrow> pyexc + pyval"
  env_asi_endpoint :: "string option"
  env_asi_api_key :: "string option"
  http_post_json :: "string \<Rightarrow> pydict \<Rightarrow> (string \<times> string) list \<Rightarrow> nat \<Rightarrow> pyexc + pyval"
  ctx_send :: "string \<Rightarrow> pydict \<Rightarrow> pyexc option"
  utcnow_isoformat :: "nat \<Rightarrow> string"

subsection \<open>\<^verbatim>\<open>analyze_evidence\<close>\<close>

definition analyze_evidence :: "world \<Rightarrow> pyval \<Rightarrow> pyval \<Rightarrow> pyval \<Rightarrow> pydict" where
  "analyze_evidence w evidence_hash evidence_url description =
     (case
        bind_exc (metta_query w
                    [(''evidence_hash'', evidence_hash), (''evidence_url'', evidence_url),
                     (''description'', description), (''analysis_type'', PStr ''milestone_verification'')]
                    ''milestone_verification'') (\<lambda>response.
        bind_exc (attr_get response ''relevance'' (PFloat (lit (1/2)))) (\<lambda>relevance.
        bind_exc (attr_get response ''completeness'' (PFloat (lit (1/2)))) (\<lambda>completeness.
        bind_exc (attr_get response ''authenticity'' (PFloat (lit (1/2)))) (\<lambda>authenticity.
        bind_exc (attr_get response ''reasoning'' (PStr ''Evidence analysis completed'')) (\<lambda>reasoning.
        bind_exc (attr_get response ''metadata'' (PDict [])) (\<lambda>metadata.
        Inr [(''relevance'', relevance), (''completeness'', completeness),
             (''authenticity'', authenticity), (''reasoning'', reasoning),
             (''metadata'', metadata)]))))))
      of Inr analysis \<Rightarrow> analysis
       | Inl e \<Rightarrow>
          [(''relevance'', PFloat (lit (1/2))), (''completeness'', PFloat (lit (1/2))),
           (''authenticity'', PFloat (lit (1/2))),
           (''reasoning'', PStr (''Evidence analysis failed: '' @ exc_str e)),
           (''metadata'', PDict [])])"

subsection \<open>\<^verbatim>\<open>call_asi_one_chat\<close> and \<^verbatim>\<open>get_agent_verdict\<close>\<close>

definition call_asi_one_chat :: "world \<Rightarrow> verifier \<Rightarrow> pydict \<Rightarrow> pyexc + pyval" where
  \<comment> \<open>without a key the mock answers; an error of the mock raised inside the \<^verbatim>\<open>try\<close> is
      caught by \<^verbatim>\<open>except Exception\<close>, whose handler calls the mock again and raises the same\<close>
  "call_asi_one_chat w self request =
     (let asi_endpoint = (case env_asi_endpoint w of None \<Rightarrow> ''https://api.asi.one'' | Some s \<Rightarrow> s);
          mock = (case get_mock_agent_response self request of Inl e \<Rightarrow> Inl e | Inr r \<Rightarrow> Inr (PDict r))
      in case env_asi_api_key w of
           None \<Rightarrow> mock
         | Some api_key \<Rightarrow>
             if api_key = [] then mock
             else (case http_post_json w (asi_endpoint @ ''/chat/agent'') request
                          [(''Authorization'', ''Bearer '' @ api_key),
                           (''Content-Type'', ''application/json''),
                           (''X-API-Key'', api_key),
                           (''User-Agent'', ''AutoCrowd-MilestoneVerifier/1.0'')] 120 of
                     Inr result \<Rightarrow> Inr result
                   | Inl e \<Rightarrow> mock))"

definition agent_request :: "verifier \<Rightarrow> pyval \<Rightarrow> pyval \<Rightarrow> pydict \<Rightarrow> pyval \<Rightarrow> pydict" where
  "agent_request self milestone_id campaign_address evidence_analysis description =
     [(''task'', PStr ''milestone_verification''),
      (''context'', PDict [(''milestone_id'', milestone_id),
                           (''campaign_address'', campaign_address),
                           (''description'', description),
                           (''evidence_analysis'', PDict evidence_analysis)]),
      (''parameters'', PDict [(''confidence_threshold'', PFloat (confidence_threshold self)),
                              (''analysis_depth'', PStr ''comprehensive'')])]"

definition get_agent_verdict ::
  "world \<Rightarrow> verifier \<Rightarrow> pyval \<Rightarrow> pyval \<Rightarrow> pydict \<Rightarrow> pyval \<Rightarrow> pydict" where
  "get_agent_verdict w self milestone_id campaign_address evidence_analysis description =
     (case
        bind_exc (call_asi_one_chat w self
                    (agent_request self milestone_id campaign_address evidence_analysis description))
          (\<lambda>response.
        bind_exc (attr_get response ''approved'' (PBool False)) (\<lambda>approved.
        bind_exc (attr_get response ''confidence'' (PFloat (lit (1/2)))) (\<lambda>confidence.
        bind_exc (attr_get response ''reasoning'' (PStr ''Agent analysis completed'')) (\<lambda>reasoning.
        bind_exc (attr_get response ''recommendations'' (PList [])) (\<lambda>recommendations.
        Inr [(''approved'', approved), (''confidence'', confidence),
             (''reasoning'', reasoning), (''recommendations'', recommendations)])))))
      of Inr verdict \<Rightarrow> verdict
       | Inl e \<Rightarrow>
          [(''approved'', PBool False), (''confidence'', PFloat (Finite 0)),
           (''reasoning'', PStr (''Agent verdict failed: '' @ exc_str e)),
           (''recommendations'', PList [])])"

subsection \<open>\<^verbatim>\<open>verify_milestone\<close> and the message handler\<close>

definition verify_milestone :: "world \<Rightarrow> verifier \<Rightarrow> (pyval \<Rightarrow> string) \<Rightarrow> pydict \<Rightarrow> pydict" where
  "verify_milestone w self render request =
     (let milestone_id = dict_get request ''milestone_id'' PNone;
          campaign_address = dict_get request ''campaign_address'' PNone;
          evidence_hash = dict_get request ''evidence_hash'' PNone;
          evidence_url = dict_get request ''evidence_url'' PNone;
          description = dict_get request ''description'' (PStr []);
          evidence_analysis = analyze_evidence w evidence_hash evidence_url description;
          agent_verdict = get_agent_verdict w self milestone_id campaign_address
                            evidence_analysis description
      in case combine_results render self evidence_analysis agent_verdict of
           Inr final_result \<Rightarrow> final_result
         | Inl e \<Rightarrow>
            [(''verdict'', PStr ''uncertain''), (''confidence'', PFloat (Finite 0)),
             (''reasoning'', PStr (''Verification failed: '' @ exc_str e)),
             (''error'', PStr (exc_str e))])"

definition result_envelope :: "world \<Rightarrow> pydict \<Rightarrow> pydict \<Rightarrow> pydict" where
  "result_envelope w msg result =
     [(''type'', PStr ''verification_result''), (''request_id'', dict_get msg ''request_id'' PNone),
      (''result'', PDict result), (''timestamp'', PStr (utcnow_isoformat w 0))]"

definition error_envelope :: "world \<Rightarrow> pydict \<Rightarrow> pyexc \<Rightarrow> pydict" where
  "error_envelope w msg e =
     [(''type'', PStr ''verification_error''), (''request_id'', dict_get msg ''request_id'' PNone),
      (''error'', PStr (exc_str e)), (''timestamp'', PStr (utcnow_isoformat w 1))]"

definition handle_verification_request ::
  "world \<Rightarrow> verifier \<Rightarrow> (pyval \<Rightarrow> string) \<Rightarrow> string \<Rightarrow> pydict
     \<Rightarrow> (string \<times> pydict) list \<times> pyexc option" where
  \<comment> \<open>the messages delivered, in order, and the exception that leaves the handler, if any\<close>
  "handle_verification_request w self render sender msg =
     (let result = verify_milestone w self render msg in
      case ctx_send w sender (result_envelope w msg result) of
        None \<Rightarrow> ([(sender, result_envelope w msg result)], None)
      | Some e \<Rightarrow>
         (case ctx_send w sender (error_envelope w msg e) of
            None \<Rightarrow> ([(sender, error_envelope w msg e)], None)
          | Some e' \<Rightarrow> ([], Some e')))"

section \<open>The formulas as the specification words them\<close>

definition spec_evidence_score :: "double \<Rightarrow> double \<Rightarrow> double \<Rightarrow> double" where
  \<comment> \<open>evidence_score = 0.4 * relevance + 0.3 * completeness + 0.3 * authenticity\<close>
  "spec_evidence_score relevance completeness authenticity =
     fadd (fadd (fmul (lit (2/5)) relevance) (fmul (lit (3/10)) completeness))
          (fmul (lit (3/10)) authenticity)"

definition spec_combined_confidence :: "double \<Rightarrow> double \<Rightarrow> double" where
  \<comment> \<open>combined_confidence = 0.4 * evidence_score + 0.6 * confidence\<close>
  "spec_combined_confidence evidence_score confidence =
     fadd (fmul (lit (2/5)) evidence_score) (fmul (lit (3/5)) confidence)"

definition spec_mock_confidence :: "string \<Rightarrow> double \<Rightarrow> double \<Rightarrow> double" where
  \<comment> \<open>base = 0.5; +0.2 for a non-empty description longer than 50; +0.2 for
      relevance > 0.7; +0.1 for completeness > 0.7; confidence = min(base, 1.0); the
      additions are float additions, made in this order\<close>
  "spec_mock_confidence description relevance completeness =
     (let base = lit (1/2);
          base = (if description \<noteq> [] \<and> 50 < length description then fadd base (lit (1/5)) else base);
          base = (if fgt relevance (lit (7/10)) then fadd base (lit (1/5)) else base);
          base = (if fgt completeness (lit (7/10)) then fadd base (lit (1/10)) else base)
      in if fle base (lit 1) then base else lit 1)"

definition decimal_mock_confidence :: "string \<Rightarrow> rat \<Rightarrow> rat \<Rightarrow> rat" where
  \<comment> \<open>the same steps in exact decimal arithmetic, the way the scenarios of the
      specification evaluate them: there 0.5 + 0.2 + 0.1 is 0.8\<close>
  "decimal_mock_confidence description relevance completeness =
     (let base = 1/2;
          base = (if description \<noteq> [] \<and> 50 < length description then base + 1/5 else base);
          base = (if 7/10 < relevance then base + 1/5 else base);
          base = (if 7/10 < completeness then base + 1/10 else base)
      in min base 1)"

section \<open>Well-typed inputs and the inputs of the scenarios\<close>



definition analysis_of :: "double \<Rightarrow> double \<Rightarrow> double \<Rightarrow> pydict" where
  "analysis_of relevance completeness authenticity =
     [(''relevance'', PFloat relevance), (''completeness'', PFloat completeness),
      (''authenticity'', PFloat authenticity), (''reasoning'', PStr ''Evidence analysis completed''),
      (''metadata'', PDict [])]"

definition verdict_of :: "bool \<Rightarrow> double \<Rightarrow> pydict" where
  "verdict_of approved confidence =
     [(''approved'', PBool approved), (''confidence'', PFloat confidence),
      (''reasoning'', PStr ''Agent analysis completed''), (''recommendations'', PList [])]"

definition default_verifier :: verifier where
  \<comment> \<open>\<^verbatim>\<open>CONFIDENCE_THRESHOLD\<close> unset: \<^verbatim>\<open>float('0.8')\<close>\<close>
  "default_verifier = \<lparr>confidence_threshold = lit (4/5)\<rparr>"

definition between0 :: "double \<Rightarrow> rat \<Rightarrow> bool" where
  \<comment> \<open>a finite double from zero (of either sign) up to \<open>b\<close>\<close>
  "between0 d b = (case d of Finite q \<Rightarrow> 0 \<le> q \<and> q \<le> b | NegZero \<Rightarrow> 0 \<le> b | _ \<Rightarrow> False)"

definition in_unit :: "double \<Rightarrow> bool" where
  "in_unit d = between0 d 1"

definition unit_score :: "pyval \<Rightarrow> bool" where
  "unit_score v = (case v of PFloat d \<Rightarrow> in_unit d | _ \<Rightarrow> False)"

definition unit_scores :: "pydict \<Rightarrow> pydict \<Rightarrow> bool" where
  \<comment> \<open>the three sub-scores and the agent's confidence are floats in [0,1], an absent
      one taking its default 0.5\<close>
  "unit_scores evidence_analysis agent_verdict =
     (unit_score (dict_get evidence_analysis ''relevance'' (PFloat (lit (1/2))))
      \<and> unit_score (dict_get evidence_analysis ''completeness'' (PFloat (lit (1/2))))
      \<and> unit_score (dict_get evidence_analysis ''authenticity'' (PFloat (lit (1/2))))
      \<and> unit_score (dict_get agent_verdict ''confidence'' (PFloat (lit (1/2)))))"

definition offline_world :: "(pyexc + pyval) \<Rightarrow> world" where
  \<comment> \<open>no API key, the knowledge service answering \<open>answer\<close>, every send delivered\<close>
  "offline_world answer =
     \<lparr>metta_query = (\<lambda>query context. answer),
      env_asi_endpoint = None,
      env_asi_api_key = None,
      http_post_json = (\<lambda>url body headers timeout. Inl (PyExc ''ConnectionError'' ''unreachable'')),
      ctx_send = (\<lambda>destination message. None),
      utcnow_isoformat = (\<lambda>i. ''2024-01-01T00:00:00'')\<rparr>"

definition neutral_evidence :: pydict where
  \<comment> \<open>the three sub-scores at the neutral 0.5\<close>
  "neutral_evidence = analysis_of (lit (1/2)) (lit (1/2)) (lit (1/2))"



definition scenario2_description :: pyval where
  "scenario2_description = PStr (replicate 80 (CHR ''x''))"

definition scenario2_evidence :: pydict where
  "scenario2_evidence = analysis_of (lit (9/10)) (lit (4/5)) (lit (1/2))"

definition scenario2_request :: pydict where
  "scenario2_request = agent_request default_verifier (PStr ''m1'') (PStr ''0xC'')
     scenario2_evidence scenario2_description"

definition scenario2_verdict :: pydict where
  \<comment> \<open>what the mock answers in scenario 2: 0.5 + 0.2 + 0.2 + 0.1 in floats is
      0.9999999999999999\<close>
  "scenario2_verdict =
     [(''approved'', PBool True),
      (''confidence'', PFloat (Finite (9007199254740991 / 9007199254740992))),
      (''reasoning'', PStr ''Mock agent analysis: Description length=80, Evidence relevance=0.90''),
      (''recommendations'', recommendations_fixed)]"

definition scenario2_result :: pydict where
  "scenario2_result =
     [(''verdict'', PStr ''approved''),
      (''confidence'', PFloat (Finite (2026619832316723 / 2251799813685248))),
      (''reasoning'', PStr (''Evidence analysis completed''
          @ ''. Mock agent analysis: Description length=80, Evidence relevance=0.90'')),
      (''details'', PDict [(''evidence_analysis'', PDict scenario2_evidence),
                           (''agent_verdict'', PDict scenario2_verdict),
                           (''combined_score'', PFloat (Finite (2026619832316723 / 2251799813685248)))])]"

definition scenario2_response :: pyval where
  \<comment> \<open>an answer of the knowledge service that gives the sub-scores of scenario 2\<close>
  "scenario2_response = PDict [(''relevance'', PFloat (lit (9/10))),
     (''completeness'', PFloat (lit (4/5))), (''authenticity'', PFloat (lit (1/2)))]"

definition scenario2_message :: pydict where
  "scenario2_message = [(''request_id'', PStr ''r1''), (''milestone_id'', PStr ''m1''),
     (''campaign_address'', PStr ''0xC''), (''evidence_hash'', PStr ''Qm''),
     (''description'', scenario2_description)]"

definition overconfident_verdict :: pydict where
  \<comment> \<open>an answer of the verdict service with a confidence of 2.0\<close>
  "overconfident_verdict = verdict_of True (Finite 2)"

definition failure_result :: "pyexc \<Rightarrow> pydict" where
  \<comment> \<open>what \<^verbatim>\<open>verify_milestone\<close> returns from its \<^verbatim>\<open>except\<close> branch\<close>
  "failure_result e =
     [(''verdict'', PStr ''uncertain''), (''confidence'', PFloat (Finite 0)),
      (''reasoning'', PStr (''Verification failed: '' @ exc_str e)),
      (''error'', PStr (exc_str e))]"

definition request_analysis :: "world \<Rightarrow> pydict \<Rightarrow> pydict" where
  \<comment> \<open>the evidence analysis of a request, as \<^verbatim>\<open>verify_milestone\<close> obtains it\<close>
  "request_analysis w request =
     analyze_evidence w (dict_get request ''evidence_hash'' PNone)
       (dict_get request ''evidence_url'' PNone) (dict_get request ''description'' (PStr []))"

definition request_verdict :: "world \<Rightarrow> verifier \<Rightarrow> pydict \<Rightarrow> pydict" where
  \<comment> \<open>the agent verdict of a request, as \<^verbatim>\<open>verify_milestone\<close> obtains it\<close>
  "request_verdict w self request =
     get_agent_verdict w self (dict_get request ''milestone_id'' PNone)
       (dict_get request ''campaign_address'' PNone) (request_analysis w request)
       (dict_get request ''description'' (PStr []))"

definition mistyped_world :: world where
  \<comment> \<open>the knowledge service answers with a relevance that is a string\<close>
  "mistyped_world = offline_world (Inr (PDict [(''relevance'', PStr ''high'')]))"

definition multiply_error :: pyexc where
  \<comment> \<open>what \<^verbatim>\<open>"high" * 0.4\<close> raises\<close>
  "multiply_error =
     PyExc ''TypeError'' (''can't multiply sequence by non-int of type '' @ quoted ''float'')"

definition send_error :: pyexc where
  "send_error = PyExc ''ConnectionError'' ''peer unreachable''"

definition deaf_world :: world where
  \<comment> \<open>the transport raises on a result envelope and delivers every other message\<close>
  "deaf_world = (offline_world (Inr scenario2_response))
     \<lparr>ctx_send := (\<lambda>destination message.
        if map_of message ''type'' = Some (PStr ''verification_result'')
        then Some send_error else None)\<rparr>"



definition boundary_evidence :: pydict where
  \<comment> \<open>relevance 0.7 (not above 0.7), completeness 1.0\<close>
  "boundary_evidence = analysis_of (lit (7/10)) (lit 1) (lit (1/2))"

definition boundary_request :: pydict where
  "boundary_request = agent_request default_verifier (PStr ''m1'') (PStr ''0xC'')
     boundary_evidence scenario2_description"

definition boundary_verdict :: pydict where
  \<comment> \<open>what the mock answers there: 0.5 + 0.2 + 0.1 in floats is 0.7999999999999999\<close>
  "boundary_verdict =
     [(''approved'', PBool False),
      (''confidence'', PFloat (Finite (7205759403792793 / 9007199254740992))),
      (''reasoning'', PStr ''Mock agent analysis: Description length=80, Evidence relevance=0.70''),
      (''recommendations'', recommendations_fixed)]"

section \<open>Properties\<close>

lemma bind_exc_Inr_iff:
  "bind_exc m f = Inr y \<longleftrightarrow> (\<exists>x. m = Inr x \<and> f x = Inr y)"
  by (cases m) (simp_all add: bind_exc_def)

subsection \<open>The binary exponent and the rounding\<close>

lemma expo_bounds:
  assumes "x \<noteq> 0"
  shows "2 powi (expo x) \<le> \<bar>x\<bar> \<and> \<bar>x\<bar> < 2 powi (expo x + 1)"
proof -
  obtain p q where pq: "quotient_of \<bar>x\<bar> = (p, q)" by (cases "quotient_of \<bar>x\<bar>")
  have q: "0 < q" using pq by (rule quotient_of_denom_pos)
  have ax: "\<bar>x\<bar> = of_int p / of_int q" using pq by (rule quotient_of_div)
  have "0 < \<bar>x\<bar>" using assms by simp
  then have p: "0 < p" using q unfolding ax by (simp add: zero_less_divide_iff)
  define bp where "bp = bitlen p"
  define bq where "bq = bitlen q"
  have bp1: "1 \<le> bp" and bq1: "1 \<le> bq"
    using p q bitlen_bounds[of p] bitlen_bounds[of q] bitlen_nonneg[of p] bitlen_nonneg[of q]
    unfolding bp_def bq_def by (auto simp: bitlen_eq_zero_iff intro: Suc_leI dest!: order.antisym)
  have plo: "(2::rat) powi (bp - 1) \<le> of_int p" and phi: "of_int p < (2::rat) powi bp"
  proof -
    have "2 ^ nat (bp - 1) \<le> p" "p < 2 ^ nat bp"
      using bitlen_bounds[OF p] unfolding bp_def by auto
    then have "(of_int (2 ^ nat (bp - 1)) :: rat) \<le> of_int p" "(of_int p :: rat) < of_int (2 ^ nat bp)"
      by (simp_all only: of_int_le_iff of_int_less_iff)
    then show "(2::rat) powi (bp - 1) \<le> of_int p" "of_int p < (2::rat) powi bp"
      using bp1 by (simp_all add: power_int_def)
  qed
  have qlo: "(2::rat) powi (bq - 1) \<le> of_int q" and qhi: "of_int q < (2::rat) powi bq"
  proof -
    have "2 ^ nat (bq - 1) \<le> q" "q < 2 ^ nat bq"
      using bitlen_bounds[OF q] unfolding bq_def by auto
    then have "(of_int (2 ^ nat (bq - 1)) :: rat) \<le> of_int q" "(of_int q :: rat) < of_int (2 ^ nat bq)"
      by (simp_all only: of_int_le_iff of_int_less_iff)
    then show "(2::rat) powi (bq - 1) \<le> of_int q" "of_int q < (2::rat) powi bq"
      using bq1 by (simp_all add: power_int_def)
  qed
  have qpos: "(0::rat) < of_int q" using q by simp
  have ppos: "(0::rat) < of_int p" using p by simp
  have lo: "2 powi (bp - bq - 1) < \<bar>x\<bar>"
  proof -
    have eq: "bp - bq - 1 = (bp - 1) - bq" by simp
    have "(2::rat) powi (bp - bq - 1) = 2 powi (bp - 1) / 2 powi bq"
      unfolding eq by (rule power_int_diff) simp
    also have "\<dots> \<le> of_int p / 2 powi bq"
      using plo by (simp add: divide_right_mono)
    also have "\<dots> < of_int p / of_int q"
      using qhi qpos ppos by (simp add: divide_strict_left_mono)
    finally show ?thesis unfolding ax .
  qed
  have hi: "\<bar>x\<bar> < 2 powi (bp - bq + 1)"
  proof -
    have "of_int p / of_int q < (2::rat) powi bp / of_int q"
      using phi qpos by (simp add: divide_strict_right_mono)
    also have "\<dots> \<le> 2 powi bp / 2 powi (bq - 1)"
      using qlo q by (intro divide_left_mono) (auto intro!: mult_pos_pos)
    also have "\<dots> = 2 powi (bp - bq + 1)"
    proof -
      have eq: "bp - bq + 1 = bp - (bq - 1)" by simp
      show ?thesis unfolding eq by (rule power_int_diff [symmetric]) simp
    qed
    finally show ?thesis unfolding ax .
  qed
  have e: "expo x = (if 2 powi (bp - bq) \<le> \<bar>x\<bar> then bp - bq else bp - bq - 1)"
    by (simp add: expo_def pq bp_def bq_def Let_def)
  show ?thesis
  proof (cases "2 powi (bp - bq) \<le> \<bar>x\<bar>")
    case True
    then show ?thesis using hi by (simp add: e)
  next
    case False
    then show ?thesis using lo by (simp add: e)
  qed
qed

lemma expo_unique:
  assumes "2 powi e \<le> \<bar>x\<bar>" and "\<bar>x\<bar> < 2 powi (e + 1)"
  shows "expo x = e"
proof -
  have "0 < (2::rat) powi e" by simp
  with assms(1) have "0 < \<bar>x\<bar>" by linarith
  then have "x \<noteq> 0" by simp
  from expo_bounds[OF this] have b: "2 powi (expo x) \<le> \<bar>x\<bar>" "\<bar>x\<bar> < 2 powi (expo x + 1)"
    by auto
  have "\<not> expo x < e"
  proof
    assume "expo x < e"
    then have "(2::rat) powi (expo x + 1) \<le> 2 powi e"
      by (intro power_int_increasing) auto
    with b(2) assms(1) show False by simp
  qed
  moreover have "\<not> e < expo x"
  proof
    assume "e < expo x"
    then have "(2::rat) powi (e + 1) \<le> 2 powi (expo x)"
      by (intro power_int_increasing) auto
    with b(1) assms(2) show False by simp
  qed
  ultimately show ?thesis by simp
qed

lemma rhe_cases: "rhe m = \<lfloor>m\<rfloor> \<or> rhe m = \<lfloor>m\<rfloor> + 1"
  by (simp add: rhe_def Let_def)

lemma rhe_of_int [simp]: "rhe (of_int n) = n"
  by (simp add: rhe_def)

lemma rhe_mono: "x \<le> y \<Longrightarrow> rhe x \<le> rhe y"
proof -
  assume xy: "x \<le> y"
  then have fl: "\<lfloor>x\<rfloor> \<le> \<lfloor>y\<rfloor>" by (rule floor_mono)
  show ?thesis
  proof (cases "\<lfloor>x\<rfloor> = \<lfloor>y\<rfloor>")
    case True
    then show ?thesis using xy by (auto simp: rhe_def Let_def)
  next
    case False
    then have "\<lfloor>x\<rfloor> + 1 \<le> \<lfloor>y\<rfloor>" using fl by simp
    moreover have "rhe x \<le> \<lfloor>x\<rfloor> + 1" using rhe_cases[of x] by auto
    moreover have "\<lfloor>y\<rfloor> \<le> rhe y" using rhe_cases[of y] by auto
    ultimately show ?thesis by simp
  qed
qed

lemma rhe_near: "\<bar>m - of_int n\<bar> < 1/2 \<Longrightarrow> rhe m = n"
proof -
  assume a: "\<bar>m - of_int n\<bar> < 1/2"
  show ?thesis
  proof (cases "of_int n \<le> m")
    case True
    then have "\<lfloor>m\<rfloor> = n" using a by (intro floor_unique) auto
    then show ?thesis using a True by (simp add: rhe_def Let_def)
  next
    case False
    then have f: "\<lfloor>m\<rfloor> = n - 1" using a by (intro floor_unique) auto
    then show ?thesis using a False by (simp add: rhe_def Let_def)
  qed
qed

lemma rhe_tie: "m - of_int n = 1/2 \<or> of_int n - m = 1/2 \<Longrightarrow> even n \<Longrightarrow> rhe m = n"
proof -
  assume a: "m - of_int n = 1/2 \<or> of_int n - m = 1/2" and e: "even n"
  from a show ?thesis
  proof
    assume b: "m - of_int n = 1/2"
    then have "\<lfloor>m\<rfloor> = n" by (intro floor_unique) auto
    then show ?thesis using b e by (simp add: rhe_def Let_def)
  next
    assume b: "of_int n - m = 1/2"
    then have f: "\<lfloor>m\<rfloor> = n - 1" by (intro floor_unique) auto
    have "m - of_int (n - 1) = 1/2" using b by simp
    then show ?thesis using f e by (simp add: rhe_def Let_def)
  qed
qed

lemma rhe_eqI:
  assumes "\<bar>m - of_int n\<bar> < 1/2 \<or> \<bar>m - of_int n\<bar> = 1/2 \<and> even n"
  shows "rhe m = n"
  using assms
proof
  assume "\<bar>m - of_int n\<bar> < 1/2"
  then show ?thesis by (rule rhe_near)
next
  assume a: "\<bar>m - of_int n\<bar> = 1/2 \<and> even n"
  then have "m - of_int n = 1/2 \<or> of_int n - m = 1/2" by (auto simp: abs_if split: if_splits)
  then show ?thesis using a by (intro rhe_tie) auto
qed

lemma rnd_pos_eq:
  assumes "2 powi e \<le> x" and "x < 2 powi (e + 1)"
  shows "rnd x = of_int (rhe (x / 2 powi (max e (- 1022) - 52))) * 2 powi (max e (- 1022) - 52)"
proof -
  have "0 < (2::rat) powi e" by simp
  with assms(1) have x: "0 < x" by linarith
  then have "expo x = e" using assms by (intro expo_unique) auto
  then show ?thesis using x by (simp add: rnd_def Let_def)
qed

lemma rnd_eqI:
  assumes "2 powi e \<le> x" and "x < 2 powi (e + 1)" and "- 1022 \<le> e"
    and "\<bar>x / 2 powi (e - 52) - of_int n\<bar> < 1/2
         \<or> \<bar>x / 2 powi (e - 52) - of_int n\<bar> = 1/2 \<and> even n"
    and "r = of_int n * 2 powi (e - 52)"
  shows "rnd x = r"
proof -
  have "max e (- 1022) = e" using assms(3) by simp
  then show ?thesis
    using rnd_pos_eq[OF assms(1,2)] rhe_eqI[OF assms(4)] assms(5) by simp
qed


lemma pow_split53: "(2::rat) powi (k + 1) = 2 powi 53 * 2 powi (k - 52)"
proof -
  have "(2::rat) powi (53 + (k - 52)) = 2 powi 53 * 2 powi (k - 52)"
    by (rule power_int_add) simp
  then show ?thesis by (simp add: add.commute)
qed

lemma pow_split52: "(2::rat) powi e = 2 powi 52 * 2 powi (e - 52)"
proof -
  have "(2::rat) powi (52 + (e - 52)) = 2 powi 52 * 2 powi (e - 52)"
    by (rule power_int_add) simp
  then show ?thesis by simp
qed

lemma rnd_upper:
  assumes "2 powi e \<le> x" and "x < 2 powi (e + 1)"
  shows "rnd x \<le> 2 powi (max e (- 1022) + 1)"
proof -
  define k where "k = max e (- 1022)"
  define u :: rat where "u = 2 powi (k - 52)"
  have u: "0 < u" by (simp add: u_def)
  have "(2::rat) powi (e + 1) \<le> 2 powi (k + 1)"
    by (intro power_int_increasing) (auto simp: k_def)
  with assms(2) have "x < 2 powi (k + 1)" by simp
  also have "(2::rat) powi (k + 1) = 2 powi 53 * u"
    unfolding u_def by (rule pow_split53)
  finally have "x / u < 2 powi 53" using u by (simp add: pos_divide_less_eq)
  then have "x / u \<le> of_int (2 ^ 53)" by simp
  then have "rhe (x / u) \<le> rhe (of_int (2 ^ 53))" by (rule rhe_mono)
  then have "rhe (x / u) \<le> 2 ^ 53" by (simp only: rhe_of_int)
  then have "(of_int (rhe (x / u)) :: rat) \<le> of_int (2 ^ 53)" by (simp only: of_int_le_iff)
  then have "of_int (rhe (x / u)) * u \<le> 2 powi 53 * u" using u by simp
  also have "2 powi 53 * u = 2 powi (k + 1)"
    unfolding u_def by (rule pow_split53 [symmetric])
  finally show ?thesis
    using rnd_pos_eq[OF assms] by (simp add: k_def u_def)
qed

lemma rnd_lower:
  assumes "2 powi e \<le> x" and "x < 2 powi (e + 1)" and "- 1022 \<le> e"
  shows "2 powi e \<le> rnd x"
proof -
  define u :: rat where "u = 2 powi (e - 52)"
  have u: "0 < u" by (simp add: u_def)
  have k: "max e (- 1022) = e" using assms(3) by simp
  have eq: "(2::rat) powi e = 2 powi 52 * u"
    unfolding u_def by (rule pow_split52)
  with assms(1) have "2 powi 52 \<le> x / u" using u by (simp add: pos_le_divide_eq)
  then have "of_int (2 ^ 52) \<le> x / u" by simp
  then have "rhe (of_int (2 ^ 52)) \<le> rhe (x / u)" by (rule rhe_mono)
  then have "2 ^ 52 \<le> rhe (x / u)" by (simp only: rhe_of_int)
  then have "(of_int (2 ^ 52) :: rat) \<le> of_int (rhe (x / u))" by (simp only: of_int_le_iff)
  then have "2 powi 52 * u \<le> of_int (rhe (x / u)) * u" using u by simp
  then show ?thesis
    using rnd_pos_eq[OF assms(1,2)] by (simp add: k u_def eq [unfolded u_def])
qed

lemma rnd_zero [simp]: "rnd 0 = 0"
  by (simp add: rnd_def)

lemma rnd_nonneg: "0 \<le> x \<Longrightarrow> 0 \<le> rnd x"
proof (cases "x = 0")
  case True
  then show ?thesis by simp
next
  case False
  assume "0 \<le> x"
  with False have x: "0 < x" by simp
  have "0 \<le> x / 2 powi (max (expo x) (- 1022) - 52)" using x by simp
  then have "rhe 0 \<le> rhe (x / 2 powi (max (expo x) (- 1022) - 52))"
    by (rule rhe_mono)
  moreover have "rhe 0 = 0" using rhe_of_int[of 0] by simp
  ultimately show ?thesis using False by (simp add: rnd_def Let_def)
qed

lemma expo_mono:
  assumes "0 < x" and "x \<le> y"
  shows "expo x \<le> expo y"
proof (rule ccontr)
  assume "\<not> expo x \<le> expo y"
  then have "expo y + 1 \<le> expo x" by simp
  then have "(2::rat) powi (expo y + 1) \<le> 2 powi (expo x)"
    by (intro power_int_increasing) auto
  moreover have "2 powi (expo x) \<le> \<bar>x\<bar>" using expo_bounds[of x] assms(1) by simp
  moreover have "\<bar>y\<bar> < 2 powi (expo y + 1)" using expo_bounds[of y] assms by simp
  ultimately show False using assms by simp
qed

lemma rnd_mono:
  assumes "0 \<le> x" and "x \<le> y"
  shows "rnd x \<le> rnd y"
proof (cases "x = 0")
  case True
  then show ?thesis using rnd_nonneg[of y] assms by simp
next
  case False
  with assms have x: "0 < x" and y: "0 < y" by simp_all
  have bx: "2 powi (expo x) \<le> x" "x < 2 powi (expo x + 1)"
    using expo_bounds[of x] x by simp_all
  have "by": "2 powi (expo y) \<le> y" "y < 2 powi (expo y + 1)"
    using expo_bounds[of y] y by simp_all
  define kx where "kx = max (expo x) (- 1022)"
  define ky where "ky = max (expo y) (- 1022)"
  have kk: "kx \<le> ky" using expo_mono[OF x assms(2)] by (simp add: kx_def ky_def)
  show ?thesis
  proof (cases "kx = ky")
    case True
    have "x / 2 powi (kx - 52) \<le> y / 2 powi (kx - 52)"
      using assms(2) by (simp add: divide_right_mono)
    then have "rhe (x / 2 powi (kx - 52)) \<le> rhe (y / 2 powi (kx - 52))" by (rule rhe_mono)
    then have "(of_int (rhe (x / 2 powi (kx - 52))) :: rat) * 2 powi (kx - 52)
        \<le> of_int (rhe (y / 2 powi (kx - 52))) * 2 powi (kx - 52)"
      by (simp add: mult_right_mono)
    then show ?thesis
      using rnd_pos_eq[OF bx] rnd_pos_eq[OF "by"] True by (simp add: kx_def ky_def)
  next
    case False
    with kk have lt: "kx < ky" by simp
    then have ey: "ky = expo y" "- 1022 \<le> expo y" by (auto simp: kx_def ky_def)
    have "rnd x \<le> 2 powi (kx + 1)" using rnd_upper[OF bx] by (simp add: kx_def)
    also have "(2::rat) powi (kx + 1) \<le> 2 powi ky"
      using lt by (intro power_int_increasing) auto
    also have "2 powi ky \<le> rnd y" using rnd_lower[OF "by" ey(2)] by (simp add: ey(1))
    finally show ?thesis .
  qed
qed

lemma expo_less:
  assumes "0 < r" and "r < 2 powi k"
  shows "expo r < k"
proof (rule ccontr)
  assume "\<not> expo r < k"
  then have "(2::rat) powi k \<le> 2 powi (expo r)"
    by (intro power_int_increasing) auto
  moreover have "2 powi (expo r) \<le> \<bar>r\<bar>" using expo_bounds[of r] assms(1) by simp
  ultimately show False using assms by simp
qed

lemma to_double_pos:
  assumes "2 powi e \<le> x" and "x < 2 powi (e + 1)" and "- 1022 \<le> e" and "e < 1023"
    and "\<bar>x / 2 powi (e - 52) - of_int n\<bar> < 1/2
         \<or> \<bar>x / 2 powi (e - 52) - of_int n\<bar> = 1/2 \<and> even n"
    and "r = of_int n * 2 powi (e - 52)"
  shows "to_double False x = Finite r"
proof -
  have r: "rnd x = r" using assms(1,2,3,5,6) by (rule rnd_eqI)
  have lo: "2 powi e \<le> r" using rnd_lower[OF assms(1,2,3)] r by simp
  have "0 < (2::rat) powi e" by simp
  with lo have pos: "0 < r" by linarith
  have "r \<le> 2 powi (e + 1)" using rnd_upper[OF assms(1,2)] assms(3) r by simp
  also have "(2::rat) powi (e + 1) < 2 powi 1024"
    using assms(4) by (intro power_int_strict_increasing) auto
  finally have "expo r < 1024" using pos by (intro expo_less) auto
  then show ?thesis using r pos by (simp add: to_double_def Let_def)
qed

lemma lit_pos:
  assumes "2 powi e \<le> x" and "x < 2 powi (e + 1)" and "- 1022 \<le> e" and "e < 1023"
    and "\<bar>x / 2 powi (e - 52) - of_int n\<bar> < 1/2
         \<or> \<bar>x / 2 powi (e - 52) - of_int n\<bar> = 1/2 \<and> even n"
    and "r = of_int n * 2 powi (e - 52)"
  shows "lit x = Finite r"
proof -
  have "0 < (2::rat) powi e" by simp
  with assms(1) have "\<not> x < 0" by linarith
  then show ?thesis using to_double_pos[OF assms] by (simp add: lit_def)
qed

lemma fadd_pos:
  assumes "2 powi e \<le> a + b" and "a + b < 2 powi (e + 1)" and "- 1022 \<le> e" and "e < 1023"
    and "\<bar>(a + b) / 2 powi (e - 52) - of_int n\<bar> < 1/2
         \<or> \<bar>(a + b) / 2 powi (e - 52) - of_int n\<bar> = 1/2 \<and> even n"
    and "r = of_int n * 2 powi (e - 52)"
  shows "fadd (Finite a) (Finite b) = Finite r"
proof -
  have "0 < (2::rat) powi e" by simp
  with assms(1) have "0 < a + b" by linarith
  then show ?thesis
    using to_double_pos[OF assms] by (simp add: fadd_def is_inf_def rv_def Let_def)
qed

lemma fmul_pos:
  assumes "0 < a" and "0 < b"
    and "2 powi e \<le> a * b" and "a * b < 2 powi (e + 1)" and "- 1022 \<le> e" and "e < 1023"
    and "\<bar>(a * b) / 2 powi (e - 52) - of_int n\<bar> < 1/2
         \<or> \<bar>(a * b) / 2 powi (e - 52) - of_int n\<bar> = 1/2 \<and> even n"
    and "r = of_int n * 2 powi (e - 52)"
  shows "fmul (Finite a) (Finite b) = Finite r"
  using to_double_pos[OF assms(3-8)] assms(1,2)
  by (simp add: fmul_def is_inf_def rv_def sgn_neg_def)

subsection \<open>The constants and sums of the program, evaluated\<close>

lemma lit_0_1: "lit (1 / 10) = Finite (3602879701896397 / 36028797018963968)"
  by (rule lit_pos[where e="- 4" and n=7205759403792794]) simp_all

lemma lit_0_2: "lit (1 / 5) = Finite (3602879701896397 / 18014398509481984)"
  by (rule lit_pos[where e="- 3" and n=7205759403792794]) simp_all

lemma lit_0_3: "lit (3 / 10) = Finite (5404319552844595 / 18014398509481984)"
  by (rule lit_pos[where e="- 2" and n=5404319552844595]) simp_all

lemma lit_0_4: "lit (2 / 5) = Finite (3602879701896397 / 9007199254740992)"
  by (rule lit_pos[where e="- 2" and n=7205759403792794]) simp_all

lemma lit_0_5: "lit (1 / 2) = Finite (1 / 2)"
  by (rule lit_pos[where e="- 1" and n=4503599627370496]) simp_all

lemma lit_0_6: "lit (3 / 5) = Finite (5404319552844595 / 9007199254740992)"
  by (rule lit_pos[where e="- 1" and n=5404319552844595]) simp_all

lemma lit_0_7: "lit (7 / 10) = Finite (3152519739159347 / 4503599627370496)"
  by (rule lit_pos[where e="- 1" and n=6305039478318694]) simp_all

lemma lit_0_8: "lit (4 / 5) = Finite (3602879701896397 / 4503599627370496)"
  by (rule lit_pos[where e="- 1" and n=7205759403792794]) simp_all

lemma lit_0_9: "lit (9 / 10) = Finite (8106479329266893 / 9007199254740992)"
  by (rule lit_pos[where e="- 1" and n=8106479329266893]) simp_all

lemma lit_1: "lit 1 = Finite 1"
  by (rule lit_pos[where e="0" and n=4503599627370496]) simp_all

lemmas lit_values = lit_0_1 lit_0_2 lit_0_3 lit_0_4 lit_0_5 lit_0_6 lit_0_7 lit_0_8 lit_0_9 lit_1

lemma mock_sum_5_2:
  "fadd (Finite (1 / 2)) (Finite (3602879701896397 / 18014398509481984)) = Finite (3152519739159347 / 4503599627370496)"
  by (rule fadd_pos[where e="- 1" and n=6305039478318694]) simp_all

lemma mock_sum_5_2_2:
  "fadd (Finite (3152519739159347 / 4503599627370496)) (Finite (3602879701896397 / 18014398509481984)) = Finite (2026619832316723 / 2251799813685248)"
  by (rule fadd_pos[where e="- 1" and n=8106479329266892]) simp_all

lemma mock_sum_5_2_2_1:
  "fadd (Finite (2026619832316723 / 2251799813685248)) (Finite (3602879701896397 / 36028797018963968)) = Finite (9007199254740991 / 9007199254740992)"
  by (rule fadd_pos[where e="- 1" and n=9007199254740991]) simp_all

lemma mock_sum_5_2_1:
  "fadd (Finite (3152519739159347 / 4503599627370496)) (Finite (3602879701896397 / 36028797018963968)) = Finite (7205759403792793 / 9007199254740992)"
  by (rule fadd_pos[where e="- 1" and n=7205759403792793]) simp_all

lemma mock_sum_5_1:
  "fadd (Finite (1 / 2)) (Finite (3602879701896397 / 36028797018963968)) = Finite (5404319552844595 / 9007199254740992)"
  by (rule fadd_pos[where e="- 1" and n=5404319552844595]) simp_all

lemmas mock_sums = mock_sum_5_2 mock_sum_5_2_2 mock_sum_5_2_2_1 mock_sum_5_2_1 mock_sum_5_1

lemma scenario2_relevance_term:
  "fmul (Finite (8106479329266893 / 9007199254740992)) (Finite (3602879701896397 / 9007199254740992)) = Finite (6485183463413515 / 18014398509481984)"
  by (rule fmul_pos[where e="- 2" and n=6485183463413515]) simp_all

lemma scenario2_completeness_term:
  "fmul (Finite (3602879701896397 / 4503599627370496)) (Finite (5404319552844595 / 18014398509481984)) = Finite (1080863910568919 / 4503599627370496)"
  by (rule fmul_pos[where e="- 3" and n=8646911284551352]) simp_all

lemma scenario2_authenticity_term:
  "fmul (Finite (1 / 2)) (Finite (5404319552844595 / 18014398509481984)) = Finite (5404319552844595 / 36028797018963968)"
  by (rule fmul_pos[where e="- 3" and n=5404319552844595]) simp_all

lemma scenario2_partial_sum:
  "fadd (Finite (6485183463413515 / 18014398509481984)) (Finite (1080863910568919 / 4503599627370496)) = Finite (1351079888211149 / 2251799813685248)"
  by (rule fadd_pos[where e="- 1" and n=5404319552844596]) simp_all

lemma scenario2_evidence_score:
  "fadd (Finite (1351079888211149 / 2251799813685248)) (Finite (5404319552844595 / 36028797018963968)) = Finite (6755399441055745 / 9007199254740992)"
  by (rule fadd_pos[where e="- 1" and n=6755399441055745]) simp_all

lemma scenario2_evidence_part:
  "fmul (Finite (6755399441055745 / 9007199254740992)) (Finite (3602879701896397 / 9007199254740992)) = Finite (1351079888211149 / 4503599627370496)"
  by (rule fmul_pos[where e="- 2" and n=5404319552844596]) simp_all

lemma scenario2_agent_part:
  "fmul (Finite (9007199254740991 / 9007199254740992)) (Finite (5404319552844595 / 9007199254740992)) = Finite (2702159776422297 / 4503599627370496)"
  by (rule fmul_pos[where e="- 1" and n=5404319552844594]) simp_all

lemma scenario2_combined:
  "fadd (Finite (1351079888211149 / 4503599627370496)) (Finite (2702159776422297 / 4503599627370496)) = Finite (2026619832316723 / 2251799813685248)"
  by (rule fadd_pos[where e="- 1" and n=8106479329266892]) simp_all

lemmas scenario2_steps = scenario2_relevance_term scenario2_completeness_term scenario2_authenticity_term
  scenario2_partial_sum scenario2_evidence_score scenario2_evidence_part scenario2_agent_part scenario2_combined

lemma rnd_0_4:
  "rnd (3602879701896397 / 9007199254740992) = 3602879701896397 / 9007199254740992"
  by (rule rnd_eqI[where e="- 2" and n=7205759403792794]) simp_all

lemma rnd_0_3:
  "rnd (5404319552844595 / 18014398509481984) = 5404319552844595 / 18014398509481984"
  by (rule rnd_eqI[where e="- 2" and n=5404319552844595]) simp_all

lemma rnd_0_6:
  "rnd (5404319552844595 / 9007199254740992) = 5404319552844595 / 9007199254740992"
  by (rule rnd_eqI[where e="- 1" and n=5404319552844595]) simp_all

lemma rnd_0_4_plus_0_3:
  "rnd (3602879701896397 / 9007199254740992 + 5404319552844595 / 18014398509481984) = 3152519739159347 / 4503599627370496"
  by (rule rnd_eqI[where e="- 1" and n=6305039478318694]) simp_all

lemma rnd_0_7_plus_0_3:
  "rnd (3152519739159347 / 4503599627370496 + 5404319552844595 / 18014398509481984) = 1"
  by (rule rnd_eqI[where e="- 1" and n=9007199254740992]) simp_all

lemma rnd_0_4_plus_0_6:
  "rnd (3602879701896397 / 9007199254740992 + 5404319552844595 / 9007199254740992) = 1"
  by (rule rnd_eqI[where e="0" and n=4503599627370496]) simp_all


subsection \<open>The inputs of the counterexamples are doubles\<close>

lemma is_double_I:
  assumes "2 powi e \<le> r" and "r < 2 powi (e + 1)" and "- 1022 \<le> e" and "e < 1024"
    and "r = of_int n * 2 powi (e - 52)"
  shows "is_double (Finite r)"
proof -
  have "0 < (2::rat) powi e" by simp
  with assms(1) have pos: "0 < r" by linarith
  have "r / 2 powi (e - 52) = of_int n" using assms(5) by simp
  then have "\<bar>r / 2 powi (e - 52) - of_int n\<bar> < 1/2
      \<or> \<bar>r / 2 powi (e - 52) - of_int n\<bar> = 1/2 \<and> even n"
    by simp
  with assms(1-3) have "rnd r = r" using assms(5) by (rule rnd_eqI)
  moreover have "expo r = e" using assms(1,2) pos by (intro expo_unique) simp_all
  ultimately show ?thesis using assms(4) by (simp add: is_double_def)
qed

lemma counterexample_inputs_are_doubles:
  "is_double NaN \<and> is_double (Finite 2) \<and> is_double (Finite 7) \<and> is_double (Finite (1 / 2))
   \<and> is_double (Finite (8106479329266893 / 9007199254740992))
   \<and> is_double (Finite (3602879701896397 / 4503599627370496))"
proof -
  have "is_double NaN" by (simp add: is_double_def)
  moreover have "is_double (Finite 2)"
    by (rule is_double_I[where e=1 and n=4503599627370496]) simp_all
  moreover have "is_double (Finite 7)"
    by (rule is_double_I[where e=2 and n=7881299347898368]) simp_all
  moreover have "is_double (Finite (1 / 2))"
    by (rule is_double_I[where e="- 1" and n=4503599627370496]) simp_all
  moreover have "is_double (Finite (8106479329266893 / 9007199254740992))"
    by (rule is_double_I[where e="- 1" and n=8106479329266893]) simp_all
  moreover have "is_double (Finite (3602879701896397 / 4503599627370496))"
    by (rule is_double_I[where e="- 1" and n=7205759403792794]) simp_all
  ultimately show ?thesis by simp
qed

subsection \<open>Helper facts about the combiner\<close>

lemma fmul_commute: "fmul a b = fmul b a"
  by (auto simp: fmul_def mult.commute)

lemma fadd_commute: "fadd a b = fadd b a"
  by (auto simp: fadd_def add.commute is_inf_def)

lemma dict_get_Some: "map_of d k = Some v \<Longrightarrow> dict_get d k dflt = v"
  by (simp add: dict_get_def)



lemma combined_of_floats:
  "combined_confidence_of (analysis_of r c a) (verdict_of b k)
     = Inr (spec_combined_confidence (spec_evidence_score r c a) k)"
  by (simp add: combined_confidence_of_def evidence_score_of_def analysis_of_def verdict_of_def
      dict_get_def mul_float_def bind_exc_def spec_combined_confidence_def spec_evidence_score_def
      fmul_commute evidence_weight_def agent_weight_def)




lemma fsub_pos:
  assumes "b \<noteq> 0"
    and "2 powi e \<le> a - b" and "a - b < 2 powi (e + 1)" and "- 1022 \<le> e" and "e < 1023"
    and "\<bar>(a - b) / 2 powi (e - 52) - of_int n\<bar> < 1/2
         \<or> \<bar>(a - b) / 2 powi (e - 52) - of_int n\<bar> = 1/2 \<and> even n"
    and "r = of_int n * 2 powi (e - 52)"
  shows "fsub (Finite a) (Finite b) = Finite r"
proof -
  have "fadd (Finite a) (Finite (- b)) = Finite r"
    using assms(2-7) by (intro fadd_pos[where e=e and n=n]) simp_all
  then show ?thesis using assms(1) by (simp add: fsub_def fneg_def)
qed

lemma neutral_relevance_term:
  "fmul (Finite (1 / 2)) (Finite (3602879701896397 / 9007199254740992)) = Finite (3602879701896397 / 18014398509481984)"
  by (rule fmul_pos[where e="- 3" and n=7205759403792794]) simp_all

lemma neutral_completeness_term:
  "fmul (Finite (1 / 2)) (Finite (5404319552844595 / 18014398509481984)) = Finite (5404319552844595 / 36028797018963968)"
  by (rule fmul_pos[where e="- 3" and n=5404319552844595]) simp_all

lemma neutral_partial_sum:
  "fadd (Finite (3602879701896397 / 18014398509481984)) (Finite (5404319552844595 / 36028797018963968)) = Finite (3152519739159347 / 9007199254740992)"
  by (rule fadd_pos[where e="- 2" and n=6305039478318694]) simp_all

lemma neutral_evidence_score:
  "fadd (Finite (3152519739159347 / 9007199254740992)) (Finite (5404319552844595 / 36028797018963968)) = Finite (1 / 2)"
  by (rule fadd_pos[where e="- 2" and n=9007199254740992]) simp_all

lemma neutral_agent_part:
  "fmul (Finite (1 / 2)) (Finite (5404319552844595 / 9007199254740992)) = Finite (5404319552844595 / 18014398509481984)"
  by (rule fmul_pos[where e="- 2" and n=5404319552844595]) simp_all

lemma neutral_combined:
  "fadd (Finite (3602879701896397 / 18014398509481984)) (Finite (5404319552844595 / 18014398509481984)) = Finite (1 / 2)"
  by (rule fadd_pos[where e="- 1" and n=4503599627370496]) simp_all

lemmas neutral_steps = neutral_relevance_term neutral_completeness_term neutral_partial_sum
  neutral_evidence_score neutral_agent_part neutral_combined

lemma one_minus_0_8:
  "fsub (Finite (1)) (Finite (3602879701896397 / 4503599627370496)) = Finite (900719925474099 / 4503599627370496)"
  by (rule fsub_pos[where e="- 3" and n=7205759403792792]) simp_all

lemma overconfident_agent_part:
  "fmul (Finite (2)) (Finite (5404319552844595 / 9007199254740992)) = Finite (5404319552844595 / 4503599627370496)"
  by (rule fmul_pos[where e="0" and n=5404319552844595]) simp_all

lemma overconfident_combined:
  "fadd (Finite (3602879701896397 / 18014398509481984)) (Finite (5404319552844595 / 4503599627370496)) = Finite (3152519739159347 / 2251799813685248)"
  by (rule fadd_pos[where e="0" and n=6305039478318694]) simp_all

subsection \<open>Scenario 2 and the neutral scenario through \<^verbatim>\<open>combine_results\<close>\<close>

lemma scenario2_combined_confidence:
  "combined_confidence_of scenario2_evidence scenario2_verdict
     = Inr (Finite (2026619832316723 / 2251799813685248))"
  by (simp add: combined_confidence_of_def evidence_score_of_def scenario2_evidence_def
      scenario2_verdict_def analysis_of_def dict_get_def mul_float_def bind_exc_def
      evidence_weight_def agent_weight_def lit_values scenario2_steps)

lemma scenario2_decision:
  "decide_verdict default_verifier (Finite (2026619832316723 / 2251799813685248)) scenario2_verdict
     = ''approved''"
  apply (simp add: decide_verdict_def default_verifier_def scenario2_verdict_def dict_get_def)
  apply (simp add: lit_values one_minus_0_8)
  apply (simp add: truthy_def fge_def fle_def flt_def rv_def)
  done

lemma scenario2_combine:
  "combine_results (\<lambda>v. []) default_verifier scenario2_evidence scenario2_verdict
     = Inr scenario2_result"
  apply (simp add: combine_results_def scenario2_combined_confidence bind_exc_def
      scenario2_decision)
  apply (simp add: scenario2_result_def py_str_def dict_get_def scenario2_evidence_def
      analysis_of_def scenario2_verdict_def)
  done





text \<open>
  C1. \<^verbatim>\<open>combine_results\<close> computes evidence_score = 0.4 * relevance + 0.3 * completeness
  + 0.3 * authenticity and combined_confidence = 0.4 * evidence_score + 0.6 * confidence, the
  weights being the constants of the source, and the confidence field of the result is that
  combined_confidence. The products and sums are those of Python floats.
\<close>

theorem combine_results_formula:
  assumes "map_of evidence_analysis ''relevance'' = Some (PFloat r)"
    and "map_of evidence_analysis ''completeness'' = Some (PFloat c)"
    and "map_of evidence_analysis ''authenticity'' = Some (PFloat a)"
    and "map_of agent_verdict ''confidence'' = Some (PFloat k)"
  shows "\<exists>res. combine_results render self evidence_analysis agent_verdict = Inr res
      \<and> evidence_score_of evidence_analysis = Inr (spec_evidence_score r c a)
      \<and> combined_confidence_of evidence_analysis agent_verdict
           = Inr (spec_combined_confidence (spec_evidence_score r c a) k)
      \<and> map_of res ''confidence''
           = Some (PFloat (spec_combined_confidence (spec_evidence_score r c a) k))"
proof -
  have es: "evidence_score_of evidence_analysis = Inr (spec_evidence_score r c a)"
    using assms(1-3)
    by (simp add: evidence_score_of_def spec_evidence_score_def dict_get_Some mul_float_def
        bind_exc_def fmul_commute)
  have cc: "combined_confidence_of evidence_analysis agent_verdict
      = Inr (spec_combined_confidence (spec_evidence_score r c a) k)"
    using assms(4)
    by (simp add: combined_confidence_of_def es spec_combined_confidence_def dict_get_Some
        mul_float_def bind_exc_def fmul_commute evidence_weight_def agent_weight_def)
  show ?thesis
    by (simp add: combine_results_def cc es bind_exc_def)
qed

theorem combine_results_formula_witness:
  "\<exists>res. combine_results (\<lambda>v. []) default_verifier
        (analysis_of (lit (9/10)) (lit (4/5)) (lit (1/2))) (verdict_of True (Finite 1)) = Inr res
      \<and> evidence_score_of (analysis_of (lit (9/10)) (lit (4/5)) (lit (1/2)))
           = Inr (spec_evidence_score (lit (9/10)) (lit (4/5)) (lit (1/2)))
      \<and> combined_confidence_of (analysis_of (lit (9/10)) (lit (4/5)) (lit (1/2)))
             (verdict_of True (Finite 1))
           = Inr (spec_combined_confidence
                    (spec_evidence_score (lit (9/10)) (lit (4/5)) (lit (1/2))) (Finite 1))
      \<and> map_of res ''confidence''
           = Some (PFloat (spec_combined_confidence
                    (spec_evidence_score (lit (9/10)) (lit (4/5)) (lit (1/2))) (Finite 1)))"
  using combine_results_formula [of "analysis_of (lit (9/10)) (lit (4/5)) (lit (1/2))"
      "lit (9/10)" "lit (4/5)" "lit (1/2)" "verdict_of True (Finite 1)" "Finite 1"
      "\<lambda>v. []" default_verifier]
  by (simp add: analysis_of_def verdict_of_def)


text \<open>
  C10. In the result of \<^verbatim>\<open>combine_results\<close> the confidence and details.combined_score
  are the same number, and details.evidence_analysis and details.agent_verdict are the two
  inputs as they were given.
\<close>

theorem details_carry_inputs:
  assumes "combine_results render self evidence_analysis agent_verdict = Inr res"
  shows "\<exists>cc details. map_of res ''confidence'' = Some (PFloat cc)
     \<and> map_of res ''details'' = Some (PDict details)
     \<and> map_of details ''combined_score'' = Some (PFloat cc)
     \<and> map_of details ''evidence_analysis'' = Some (PDict evidence_analysis)
     \<and> map_of details ''agent_verdict'' = Some (PDict agent_verdict)"
  using assms
  by (auto simp: combine_results_def bind_exc_Inr_iff)


theorem details_carry_inputs_witness:
  "\<exists>cc details. map_of scenario2_result ''confidence'' = Some (PFloat cc)
     \<and> map_of scenario2_result ''details'' = Some (PDict details)
     \<and> map_of details ''combined_score'' = Some (PFloat cc)
     \<and> map_of details ''evidence_analysis'' = Some (PDict scenario2_evidence)
     \<and> map_of details ''agent_verdict'' = Some (PDict scenario2_verdict)"
  using details_carry_inputs [OF scenario2_combine] .







subsection \<open>The mock verdict\<close>

lemma lit_0_75: "lit (3 / 4) = Finite (3 / 4)"
  by (rule lit_pos[where e="- 1" and n=6755399441055744]) simp_all

lemma mock_base_values:
  "add_if c3 (lit (1/10)) (add_if c2 (lit (1/5)) (add_if c1 (lit (1/5)) (lit (1/2))))
     \<in> {Finite (1 / 2), Finite (3152519739159347 / 4503599627370496),
        Finite (2026619832316723 / 2251799813685248),
        Finite (9007199254740991 / 9007199254740992),
        Finite (7205759403792793 / 9007199254740992),
        Finite (5404319552844595 / 9007199254740992)}"
  by (cases c1; cases c2; cases c3) (simp_all add: add_if_def lit_values mock_sums)

lemma py_min_one:
  assumes "b \<in> {Finite (1 / 2), Finite (3152519739159347 / 4503599627370496),
        Finite (2026619832316723 / 2251799813685248),
        Finite (9007199254740991 / 9007199254740992),
        Finite (7205759403792793 / 9007199254740992),
        Finite (5404319552844595 / 9007199254740992)}"
  shows "py_min b (lit 1) = b" and "fle b (lit 1)" and "fle (lit (1/2)) b"
  using assms by (auto simp: py_min_def flt_def fle_def rv_def lit_values)

lemma mock_confidence_spec:
  "py_min (add_if (fgt completeness (lit (7/10))) (lit (1/10))
            (add_if (fgt relevance (lit (7/10))) (lit (1/5))
              (add_if (description \<noteq> [] \<and> 50 < length description) (lit (1/5)) (lit (1/2)))))
          (lit 1)
     = spec_mock_confidence description relevance completeness"
  by (cases "fgt completeness (lit (7/10))"; cases "fgt relevance (lit (7/10))";
      cases "description \<noteq> [] \<and> 50 < length description")
    (simp_all add: spec_mock_confidence_def Let_def add_if_def lit_values mock_sums
      py_min_def flt_def fle_def rv_def)

lemma attr_get_dict: "attr_get (PDict d) k dflt = Inr (dict_get d k dflt)"
  by (simp add: attr_get_def)

lemma mock_response_typed:
  assumes "map_of request ''context'' = Some (PDict ctx)"
    and "map_of ctx ''description'' = Some (PStr description)"
    and "map_of ctx ''evidence_analysis'' = Some (PDict ea)"
    and "dict_get ea ''relevance'' (PFloat (lit (1/2))) = PFloat relevance"
    and "dict_get ea ''completeness'' (PFloat (lit (1/2))) = PFloat completeness"
  shows "get_mock_agent_response self request =
     Inr [(''approved'', PBool (fge (spec_mock_confidence description relevance completeness)
                                     (confidence_threshold self))),
          (''confidence'', PFloat (spec_mock_confidence description relevance completeness)),
          (''reasoning'', PStr (''Mock agent analysis: Description length=''
               @ str_nat (length description) @ '', Evidence relevance=''
               @ format_2f_double relevance)),
          (''recommendations'', PList [PStr ''Consider providing more detailed evidence'',
               PStr ''Ensure milestone deliverables are clearly defined''])]"
proof -
  have c: "dict_get request ''context'' (PDict []) = PDict ctx"
    using assms(1) by (simp add: dict_get_def)
  have d: "dict_get ctx ''description'' (PStr []) = PStr description"
    using assms(2) by (simp add: dict_get_def)
  have e: "dict_get ctx ''evidence_analysis'' (PDict []) = PDict ea"
    using assms(3) by (simp add: dict_get_def)
  have l: "description_long (PStr description) = Inr (description \<noteq> [] \<and> 50 < length description)"
    by (simp add: description_long_def truthy_def py_len_def bind_exc_def)
  show ?thesis
    by (simp add: get_mock_agent_response_def c d e l attr_get_dict assms(4,5) bind_exc_def
        gt_float_def py_len_def format_2f_def Let_def mock_confidence_spec
        recommendations_fixed_def del: str_nat.simps)
qed

text \<open>
  C4. The mock verdict is a function of the description, the evidence analysis and the
  threshold: base = 0.5, +0.2 for a non-empty description longer than 50 characters, +0.2
  for relevance > 0.7, +0.1 for completeness > 0.7, each addition a float addition made in
  this order (0.5 + 0.2 + 0.1 is 0.7999999999999999), confidence = min(base, 1.0),
  approved = (confidence >= confidence_threshold), and the recommendations are a fixed
  list of two; the right-hand side mentions nothing but these inputs, so equal inputs give
  equal verdicts.
\<close>

theorem mock_is_spec_function:
  assumes "map_of request ''context'' = Some (PDict ctx)"
    and "map_of ctx ''description'' = Some (PStr description)"
    and "map_of ctx ''evidence_analysis'' = Some (PDict ea)"
    and "dict_get ea ''relevance'' (PFloat (lit (1/2))) = PFloat relevance"
    and "dict_get ea ''completeness'' (PFloat (lit (1/2))) = PFloat completeness"
  shows "get_mock_agent_response self request =
     Inr [(''approved'', PBool (fge (spec_mock_confidence description relevance completeness)
                                     (confidence_threshold self))),
          (''confidence'', PFloat (spec_mock_confidence description relevance completeness)),
          (''reasoning'', PStr (''Mock agent analysis: Description length=''
               @ str_nat (length description) @ '', Evidence relevance=''
               @ format_2f_double relevance)),
          (''recommendations'', PList [PStr ''Consider providing more detailed evidence'',
               PStr ''Ensure milestone deliverables are clearly defined''])]"
  using assms by (rule mock_response_typed)

lemma scenario2_spec_confidence:
  "spec_mock_confidence (replicate 80 (CHR ''x'')) (lit (9/10)) (lit (4/5))
     = Finite (9007199254740991 / 9007199254740992)"
  apply (simp add: spec_mock_confidence_def Let_def lit_values)
  apply (simp add: fgt_def flt_def fle_def rv_def mock_sums)
  done

lemma str_nat_80: "str_nat 80 = ''80''"
  by (simp add: digit_char_def)

lemma format_0_9: "format_2f_double (lit (9/10)) = ''0.90''"
proof -
  have "rhe (8106479329266893 / 9007199254740992 * 100) = 90"
    by (rule rhe_near) simp
  then show ?thesis
    by (simp add: lit_values format_2f_double_def fixed2_def Let_def digit_char_def)
qed

lemma scenario2_request_shape:
  "map_of scenario2_request ''context''
     = Some (PDict [(''milestone_id'', PStr ''m1''), (''campaign_address'', PStr ''0xC''),
                    (''description'', scenario2_description),
                    (''evidence_analysis'', PDict scenario2_evidence)])"
  by (simp add: scenario2_request_def agent_request_def)

theorem mock_is_spec_function_witness:
  "get_mock_agent_response default_verifier scenario2_request = Inr scenario2_verdict"
proof -
  have "get_mock_agent_response default_verifier scenario2_request =
     Inr [(''approved'', PBool (fge (spec_mock_confidence (replicate 80 (CHR ''x'')) (lit (9/10)) (lit (4/5)))
                                     (confidence_threshold default_verifier))),
          (''confidence'', PFloat (spec_mock_confidence (replicate 80 (CHR ''x'')) (lit (9/10)) (lit (4/5)))),
          (''reasoning'', PStr (''Mock agent analysis: Description length=''
               @ str_nat (length (replicate 80 (CHR ''x''))) @ '', Evidence relevance=''
               @ format_2f_double (lit (9/10)))),
          (''recommendations'', PList [PStr ''Consider providing more detailed evidence'',
               PStr ''Ensure milestone deliverables are clearly defined''])]"
    by (rule mock_is_spec_function[OF scenario2_request_shape,
          where description="replicate 80 (CHR ''x'')" and ea=scenario2_evidence
            and relevance="lit (9/10)" and completeness="lit (4/5)"])
      (simp_all add: scenario2_description_def scenario2_evidence_def analysis_of_def dict_get_def)
  then show ?thesis
    unfolding scenario2_spec_confidence format_0_9
    by (simp add: scenario2_verdict_def recommendations_fixed_def str_nat_80 default_verifier_def
        lit_values fge_def fle_def rv_def del: str_nat.simps)
qed

lemma format_0_7: "format_2f_double (lit (7/10)) = ''0.70''"
proof -
  have "rhe (3152519739159347 / 4503599627370496 * 100) = 70"
    by (rule rhe_near) simp
  then show ?thesis
    by (simp add: lit_values format_2f_double_def fixed2_def Let_def digit_char_def)
qed

lemma boundary_spec_confidence:
  "spec_mock_confidence (replicate 80 (CHR ''x'')) (lit (7/10)) (lit 1)
     = Finite (7205759403792793 / 9007199254740992)"
  apply (simp add: spec_mock_confidence_def Let_def lit_values)
  apply (simp add: fgt_def flt_def fle_def rv_def mock_sums)
  done

lemma boundary_request_shape:
  "map_of boundary_request ''context''
     = Some (PDict [(''milestone_id'', PStr ''m1''), (''campaign_address'', PStr ''0xC''),
                    (''description'', scenario2_description),
                    (''evidence_analysis'', PDict boundary_evidence)])"
  by (simp add: boundary_request_def agent_request_def)

lemma boundary_mock:
  "get_mock_agent_response default_verifier boundary_request = Inr boundary_verdict"
proof -
  have "get_mock_agent_response default_verifier boundary_request =
     Inr [(''approved'', PBool (fge (spec_mock_confidence (replicate 80 (CHR ''x'')) (lit (7/10)) (lit 1))
                                     (confidence_threshold default_verifier))),
          (''confidence'', PFloat (spec_mock_confidence (replicate 80 (CHR ''x'')) (lit (7/10)) (lit 1))),
          (''reasoning'', PStr (''Mock agent analysis: Description length=''
               @ str_nat (length (replicate 80 (CHR ''x''))) @ '', Evidence relevance=''
               @ format_2f_double (lit (7/10)))),
          (''recommendations'', PList [PStr ''Consider providing more detailed evidence'',
               PStr ''Ensure milestone deliverables are clearly defined''])]"
    by (rule mock_response_typed[OF boundary_request_shape,
          where description="replicate 80 (CHR ''x'')" and ea=boundary_evidence
            and relevance="lit (7/10)" and completeness="lit 1"])
      (simp_all add: scenario2_description_def boundary_evidence_def analysis_of_def dict_get_def)
  then show ?thesis
    unfolding boundary_spec_confidence format_0_7
    by (simp add: boundary_verdict_def recommendations_fixed_def str_nat_80 default_verifier_def
        lit_values fge_def fle_def rv_def del: str_nat.simps)
qed

theorem mock_boundary_differs:
  "get_mock_agent_response default_verifier boundary_request = Inr boundary_verdict
   \<and> map_of boundary_verdict ''confidence''
       = Some (PFloat (Finite (7205759403792793 / 9007199254740992)))
   \<and> map_of boundary_verdict ''approved'' = Some (PBool False)
   \<and> decimal_mock_confidence (replicate 80 (CHR ''x'')) (7/10) 1 = 4/5
   \<and> (4/5 :: rat) \<le> decimal_mock_confidence (replicate 80 (CHR ''x'')) (7/10) 1
   \<and> Finite (7205759403792793 / 9007199254740992) \<noteq> lit (4/5)
   \<and> \<not> fge (Finite (7205759403792793 / 9007199254740992))
            (confidence_threshold default_verifier)"
proof -
  have d: "decimal_mock_confidence (replicate 80 (CHR ''x'')) (7/10) 1 = 4/5"
    by (simp add: decimal_mock_confidence_def Let_def)
  have v: "map_of boundary_verdict ''confidence''
        = Some (PFloat (Finite (7205759403792793 / 9007199254740992)))
      \<and> map_of boundary_verdict ''approved'' = Some (PBool False)"
    by (simp add: boundary_verdict_def)
  have t: "Finite (7205759403792793 / 9007199254740992) \<noteq> lit (4/5)
      \<and> \<not> fge (Finite (7205759403792793 / 9007199254740992))
               (confidence_threshold default_verifier)"
    by (simp add: default_verifier_def lit_values fge_def fle_def rv_def)
  show ?thesis using boundary_mock d v t by simp
qed

lemma scenario2_mock:
  "get_mock_agent_response default_verifier scenario2_request = Inr scenario2_verdict"
proof -
  have "get_mock_agent_response default_verifier scenario2_request =
     Inr [(''approved'', PBool (fge (spec_mock_confidence (replicate 80 (CHR ''x'')) (lit (9/10)) (lit (4/5)))
                                     (confidence_threshold default_verifier))),
          (''confidence'', PFloat (spec_mock_confidence (replicate 80 (CHR ''x'')) (lit (9/10)) (lit (4/5)))),
          (''reasoning'', PStr (''Mock agent analysis: Description length=''
               @ str_nat (length (replicate 80 (CHR ''x''))) @ '', Evidence relevance=''
               @ format_2f_double (lit (9/10)))),
          (''recommendations'', PList [PStr ''Consider providing more detailed evidence'',
               PStr ''Ensure milestone deliverables are clearly defined''])]"
    by (rule mock_response_typed[OF scenario2_request_shape,
          where description="replicate 80 (CHR ''x'')" and ea=scenario2_evidence
            and relevance="lit (9/10)" and completeness="lit (4/5)"])
      (simp_all add: scenario2_description_def scenario2_evidence_def analysis_of_def dict_get_def)
  then show ?thesis
    unfolding scenario2_spec_confidence format_0_9
    by (simp add: scenario2_verdict_def recommendations_fixed_def str_nat_80 default_verifier_def
        lit_values fge_def fle_def rv_def del: str_nat.simps)
qed

text \<open>
  C9. Whatever the request, a verdict the mock returns has a confidence in [0.5, 1.0]:
  the bonuses are only added to the base of 0.5 and the sum is capped at 1.0.
\<close>

theorem mock_confidence_range:
  assumes "get_mock_agent_response self request = Inr res"
  shows "\<exists>d. map_of res ''confidence'' = Some (PFloat d) \<and> fle (lit (1/2)) d \<and> fle d (lit 1)"
  using assms unfolding get_mock_agent_response_def Let_def
  by (auto simp: bind_exc_Inr_iff py_min_one[OF mock_base_values])

theorem mock_confidence_range_witness:
  "\<exists>d. map_of scenario2_verdict ''confidence'' = Some (PFloat d)
     \<and> fle (lit (1/2)) d \<and> fle d (lit 1)"
  using mock_confidence_range [OF scenario2_mock] .

subsection \<open>Scenario 2 through the whole request\<close>

lemma scenario2_evidence_score_value:
  "evidence_score_of scenario2_evidence = Inr (Finite (6755399441055745 / 9007199254740992))"
  by (simp add: evidence_score_of_def scenario2_evidence_def analysis_of_def dict_get_def
      mul_float_def bind_exc_def lit_values scenario2_steps)

lemma scenario2_combine_any:
  "combine_results render default_verifier scenario2_evidence scenario2_verdict
     = Inr scenario2_result"
  apply (simp add: combine_results_def scenario2_combined_confidence bind_exc_def
      scenario2_decision)
  apply (simp add: scenario2_result_def py_str_def dict_get_def scenario2_evidence_def
      analysis_of_def scenario2_verdict_def)
  done

lemma scenario2_analysis:
  "analyze_evidence (offline_world (Inr scenario2_response)) evidence_hash evidence_url description
     = scenario2_evidence"
  by (simp add: analyze_evidence_def offline_world_def scenario2_response_def bind_exc_def
      attr_get_def dict_get_def scenario2_evidence_def analysis_of_def)

lemma scenario2_agent_verdict:
  "get_agent_verdict (offline_world answer) default_verifier (PStr ''m1'') (PStr ''0xC'')
      scenario2_evidence scenario2_description = scenario2_verdict"
proof -
  have "call_asi_one_chat (offline_world answer) default_verifier scenario2_request
      = Inr (PDict scenario2_verdict)"
    by (simp add: call_asi_one_chat_def offline_world_def scenario2_mock Let_def)
  then show ?thesis
    unfolding get_agent_verdict_def scenario2_request_def [symmetric]
    by (simp add: bind_exc_def attr_get_def dict_get_def scenario2_verdict_def)
qed

lemma scenario2_verify:
  "verify_milestone (offline_world (Inr scenario2_response)) default_verifier render
      scenario2_message = scenario2_result"
proof -
  have m: "dict_get scenario2_message ''milestone_id'' PNone = PStr ''m1''"
    "dict_get scenario2_message ''campaign_address'' PNone = PStr ''0xC''"
    "dict_get scenario2_message ''description'' (PStr []) = scenario2_description"
    by (simp_all add: scenario2_message_def dict_get_def)
  show ?thesis
    by (simp add: verify_milestone_def Let_def m scenario2_analysis scenario2_agent_verdict
        scenario2_combine_any)
qed

text \<open>
  C8. Scenario 2 (a description of length 80, relevance 0.9, completeness 0.8, authenticity
  0.5, threshold 0.8), as the code computes it: the mock's confidence is 0.9999999999999999
  (0.5 + 0.2 + 0.2 + 0.1 in floats, one unit in the last place below 1.0) with approved =
  true, the evidence score is 0.7500000000000001, the combined confidence is
  0.8999999999999999, and the verdict is "approved".
\<close>

theorem scenario2_outcome:
  "get_mock_agent_response default_verifier scenario2_request = Inr scenario2_verdict
   \<and> map_of scenario2_verdict ''confidence''
       = Some (PFloat (Finite (9007199254740991 / 9007199254740992)))
   \<and> map_of scenario2_verdict ''approved'' = Some (PBool True)
   \<and> evidence_score_of scenario2_evidence = Inr (Finite (6755399441055745 / 9007199254740992))
   \<and> combine_results render default_verifier scenario2_evidence scenario2_verdict
       = Inr scenario2_result
   \<and> map_of scenario2_result ''confidence''
       = Some (PFloat (Finite (2026619832316723 / 2251799813685248)))
   \<and> map_of scenario2_result ''verdict'' = Some (PStr ''approved'')
   \<and> verify_milestone (offline_world (Inr scenario2_response)) default_verifier render
        scenario2_message = scenario2_result"
  by (simp add: scenario2_mock scenario2_evidence_score_value scenario2_combine_any
      scenario2_verify)
    (simp add: scenario2_verdict_def scenario2_result_def)

theorem scenario2_not_exact:
  "get_mock_agent_response default_verifier scenario2_request = Inr scenario2_verdict
   \<and> map_of scenario2_verdict ''confidence''
       = Some (PFloat (Finite (9007199254740991 / 9007199254740992)))
   \<and> Finite (9007199254740991 / 9007199254740992) \<noteq> lit 1
   \<and> evidence_score_of scenario2_evidence = Inr (Finite (6755399441055745 / 9007199254740992))
   \<and> Finite (6755399441055745 / 9007199254740992) \<noteq> lit (3/4)
   \<and> combined_confidence_of scenario2_evidence scenario2_verdict
       = Inr (Finite (2026619832316723 / 2251799813685248))
   \<and> Finite (2026619832316723 / 2251799813685248) \<noteq> lit (9/10)"
  by (simp add: scenario2_mock scenario2_evidence_score_value scenario2_combined_confidence
      lit_values lit_0_75)
    (simp add: scenario2_verdict_def)

text \<open>
  C6. \<^verbatim>\<open>analyze_evidence\<close> returns a value in every case. When the query to the knowledge
  service raises, the analysis returned has relevance = completeness = authenticity = 0.5,
  a reasoning that ends with the text of the error, and an empty metadata.
\<close>

theorem analyze_evidence_failure:
  assumes "metta_query w [(''evidence_hash'', evidence_hash), (''evidence_url'', evidence_url),
             (''description'', description), (''analysis_type'', PStr ''milestone_verification'')]
             ''milestone_verification'' = Inl e"
  shows "analyze_evidence w evidence_hash evidence_url description =
     [(''relevance'', PFloat (Finite (1/2))), (''completeness'', PFloat (Finite (1/2))),
      (''authenticity'', PFloat (Finite (1/2))),
      (''reasoning'', PStr (''Evidence analysis failed: '' @ exc_str e)),
      (''metadata'', PDict [])]"
  using assms by (simp add: analyze_evidence_def bind_exc_def lit_values)

theorem analyze_evidence_failure_witness:
  "analyze_evidence (offline_world (Inl (PyExc ''TimeoutError'' ''timed out'')))
      (PStr ''Qm'') PNone (PStr ''built'') =
     [(''relevance'', PFloat (Finite (1/2))), (''completeness'', PFloat (Finite (1/2))),
      (''authenticity'', PFloat (Finite (1/2))),
      (''reasoning'', PStr ''Evidence analysis failed: timed out''),
      (''metadata'', PDict [])]"
  using analyze_evidence_failure [of "offline_world (Inl (PyExc ''TimeoutError'' ''timed out''))"
      "PStr ''Qm''" PNone "PStr ''built''" "PyExc ''TimeoutError'' ''timed out''"]
  by (simp add: offline_world_def)

subsection \<open>Scores in the unit interval\<close>

lemma between0_rv:
  assumes "between0 d b"
  shows "d \<noteq> NaN" and "\<not> is_inf d" and "0 \<le> rv d" and "rv d \<le> b"
  using assms by (cases d; simp add: between0_def is_inf_def rv_def)+

lemma one_less_pow1024: "(1::rat) < 2 powi 1024"
proof -
  have "(2::rat) powi 0 < 2 powi 1024"
    by (rule power_int_strict_increasing) simp_all
  then show ?thesis by simp
qed

lemma to_double_between:
  assumes "0 \<le> x" and "x \<le> y" and "rnd y \<le> b" and "b \<le> 1"
  shows "between0 (to_double neg x) b"
proof -
  have r0: "0 \<le> rnd x" using assms(1) by (rule rnd_nonneg)
  have rb: "rnd x \<le> b" using rnd_mono[OF assms(1,2)] assms(3) by simp
  show ?thesis
  proof (cases "rnd x = 0")
    case True
    then show ?thesis using rb by (simp add: to_double_def between0_def)
  next
    case False
    with r0 have pos: "0 < rnd x" by simp
    have "rnd x < 2 powi 1024" using rb assms(4) one_less_pow1024 by linarith
    with pos have "expo (rnd x) < 1024" by (rule expo_less)
    then show ?thesis using False r0 rb by (simp add: to_double_def between0_def)
  qed
qed

lemma fmul_between:
  assumes "between0 a ba" and "0 \<le> c" and "rnd (ba * c) \<le> b" and "b \<le> 1"
  shows "between0 (fmul a (Finite c)) b"
proof -
  note a = between0_rv[OF assms(1)]
  have "0 \<le> rv a * c" using a(3) assms(2) by simp
  moreover have "rv a * c \<le> ba * c" using a(4) assms(2) by (simp add: mult_right_mono)
  ultimately have "between0 (to_double (sgn_neg a \<noteq> sgn_neg (Finite c)) (rv a * c)) b"
    using assms(3,4) by (rule to_double_between)
  then show ?thesis using a(1,2) by (simp add: fmul_def is_inf_def rv_def)
qed

lemma fadd_between:
  assumes "between0 a ba" and "between0 b bb" and "rnd (ba + bb) \<le> B" and "B \<le> 1"
  shows "between0 (fadd a b) B"
proof -
  note a = between0_rv[OF assms(1)] and b = between0_rv[OF assms(2)]
  have s0: "0 \<le> rv a + rv b" using a(3) b(3) by simp
  have sb: "rv a + rv b \<le> ba + bb" using a(4) b(4) by simp
  have B0: "0 \<le> B" using rnd_nonneg[of "ba + bb"] s0 sb assms(3) by simp
  show ?thesis
  proof (cases "rv a + rv b = 0")
    case True
    then show ?thesis using a(1,2) b(1,2) B0 by (simp add: fadd_def between0_def)
  next
    case False
    have "between0 (to_double (rv a + rv b < 0) (rv a + rv b)) B"
      using s0 sb assms(3,4) by (rule to_double_between)
    then show ?thesis using False a(1,2) b(1,2) by (simp add: fadd_def Let_def)
  qed
qed

lemma weighted_sum_bounded:
  assumes "in_unit r" and "in_unit c" and "in_unit a" and "in_unit k"
  shows "in_unit (fadd (fadd (fmul r (lit (2/5))) (fmul c (lit (3/10)))) (fmul a (lit (3/10))))"
    and "in_unit (fadd (fmul (fadd (fadd (fmul r (lit (2/5))) (fmul c (lit (3/10))))
                              (fmul a (lit (3/10)))) (lit (2/5)))
                       (fmul k (lit (3/5))))"
proof -
  let ?c4 = "3602879701896397 / 9007199254740992 :: rat"
  let ?c3 = "5404319552844595 / 18014398509481984 :: rat"
  let ?c6 = "5404319552844595 / 9007199254740992 :: rat"
  let ?c7 = "3152519739159347 / 4503599627370496 :: rat"
  have m4: "rnd (1 * ?c4) \<le> ?c4" by (simp only: mult_1 rnd_0_4 order_refl)
  have m3: "rnd (1 * ?c3) \<le> ?c3" by (simp only: mult_1 rnd_0_3 order_refl)
  have m6: "rnd (1 * ?c6) \<le> ?c6" by (simp only: mult_1 rnd_0_6 order_refl)
  have a43: "rnd (?c4 + ?c3) \<le> ?c7" by (simp only: rnd_0_4_plus_0_3 order_refl)
  have a73: "rnd (?c7 + ?c3) \<le> 1" by (simp only: rnd_0_7_plus_0_3 order_refl)
  have a46: "rnd (?c4 + ?c6) \<le> 1" by (simp only: rnd_0_4_plus_0_6 order_refl)
  have t1: "between0 (fmul r (Finite ?c4)) ?c4"
    using assms(1) unfolding in_unit_def by (rule fmul_between[OF _ _ m4]) simp_all
  have t2: "between0 (fmul c (Finite ?c3)) ?c3"
    using assms(2) unfolding in_unit_def by (rule fmul_between[OF _ _ m3]) simp_all
  have t3: "between0 (fmul a (Finite ?c3)) ?c3"
    using assms(3) unfolding in_unit_def by (rule fmul_between[OF _ _ m3]) simp_all
  have s1: "between0 (fadd (fmul r (Finite ?c4)) (fmul c (Finite ?c3))) ?c7"
    using t1 t2 a43 by (rule fadd_between) simp
  have es: "between0 (fadd (fadd (fmul r (Finite ?c4)) (fmul c (Finite ?c3)))
                            (fmul a (Finite ?c3))) 1"
    using s1 t3 a73 by (rule fadd_between) simp
  have u1: "between0 (fmul (fadd (fadd (fmul r (Finite ?c4)) (fmul c (Finite ?c3)))
                                  (fmul a (Finite ?c3))) (Finite ?c4)) ?c4"
    using es by (rule fmul_between[OF _ _ m4]) simp_all
  have u2: "between0 (fmul k (Finite ?c6)) ?c6"
    using assms(4) unfolding in_unit_def by (rule fmul_between[OF _ _ m6]) simp_all
  have cc: "between0 (fadd (fmul (fadd (fadd (fmul r (Finite ?c4)) (fmul c (Finite ?c3)))
                                        (fmul a (Finite ?c3))) (Finite ?c4))
                            (fmul k (Finite ?c6))) 1"
    using u1 u2 a46 by (rule fadd_between) simp
  show "in_unit (fadd (fadd (fmul r (lit (2/5))) (fmul c (lit (3/10)))) (fmul a (lit (3/10))))"
    using es by (simp only: in_unit_def lit_values)
  show "in_unit (fadd (fmul (fadd (fadd (fmul r (lit (2/5))) (fmul c (lit (3/10))))
                              (fmul a (lit (3/10)))) (lit (2/5)))
                       (fmul k (lit (3/5))))"
    using cc by (simp only: in_unit_def lit_values)
qed

lemma unit_score_float: "unit_score v \<Longrightarrow> \<exists>d. v = PFloat d \<and> in_unit d"
  by (cases v) (simp_all add: unit_score_def)

text \<open>
  C5. When the three sub-scores and the agent's confidence are floats in [0,1] (an absent
  one taking its default 0.5), the evidence score and the combined confidence that
  \<^verbatim>\<open>combine_results\<close> computes lie in [0,1]: rounding to nearest keeps the weighted sums
  within the bound. The code does not clamp: a value outside [0,1] received from a
  service passes through.
\<close>

theorem unit_scores_bounded:
  assumes "unit_scores evidence_analysis agent_verdict"
  shows "\<exists>es cc. evidence_score_of evidence_analysis = Inr es \<and> in_unit es
     \<and> combined_confidence_of evidence_analysis agent_verdict = Inr cc \<and> in_unit cc"
proof -
  from assms obtain r c a k where
    r: "dict_get evidence_analysis ''relevance'' (PFloat (lit (1/2))) = PFloat r" "in_unit r" and
    c: "dict_get evidence_analysis ''completeness'' (PFloat (lit (1/2))) = PFloat c" "in_unit c" and
    a: "dict_get evidence_analysis ''authenticity'' (PFloat (lit (1/2))) = PFloat a" "in_unit a" and
    k: "dict_get agent_verdict ''confidence'' (PFloat (lit (1/2))) = PFloat k" "in_unit k"
    unfolding unit_scores_def by (meson unit_score_float)
  have es: "evidence_score_of evidence_analysis
      = Inr (fadd (fadd (fmul r (lit (2/5))) (fmul c (lit (3/10)))) (fmul a (lit (3/10))))"
    by (simp add: evidence_score_of_def r(1) c(1) a(1) mul_float_def bind_exc_def)
  have cc: "combined_confidence_of evidence_analysis agent_verdict
      = Inr (fadd (fmul (fadd (fadd (fmul r (lit (2/5))) (fmul c (lit (3/10))))
                              (fmul a (lit (3/10)))) (lit (2/5)))
                  (fmul k (lit (3/5))))"
    by (simp add: combined_confidence_of_def es k(1) mul_float_def bind_exc_def
        evidence_weight_def agent_weight_def)
  show ?thesis
    using weighted_sum_bounded[OF r(2) c(2) a(2) k(2)] es cc by simp
qed

lemma scenario2_unit_scores: "unit_scores scenario2_evidence scenario2_verdict"
  by (simp add: unit_scores_def unit_score_def in_unit_def between0_def scenario2_evidence_def
      scenario2_verdict_def analysis_of_def dict_get_def lit_values)

theorem unit_scores_bounded_witness:
  "\<exists>es cc. evidence_score_of scenario2_evidence = Inr es \<and> in_unit es
     \<and> combined_confidence_of scenario2_evidence scenario2_verdict = Inr cc \<and> in_unit cc"
  using unit_scores_bounded [OF scenario2_unit_scores] .

theorem overconfident_above_one:
  "combined_confidence_of neutral_evidence overconfident_verdict
     = Inr (Finite (3152519739159347 / 2251799813685248))
   \<and> \<not> fle (Finite (3152519739159347 / 2251799813685248)) (Finite 1)
   \<and> map_of (analyze_evidence (offline_world (Inr (PDict [(''relevance'', PFloat (Finite 7))])))
               PNone PNone PNone) ''relevance'' = Some (PFloat (Finite 7))
   \<and> \<not> fle (Finite 7) (Finite 1)"
proof -
  have "combined_confidence_of neutral_evidence overconfident_verdict
     = Inr (Finite (3152519739159347 / 2251799813685248))"
    by (simp add: combined_confidence_of_def evidence_score_of_def neutral_evidence_def
        overconfident_verdict_def verdict_of_def analysis_of_def dict_get_def mul_float_def
        bind_exc_def evidence_weight_def agent_weight_def lit_values neutral_steps
        overconfident_agent_part overconfident_combined)
  then show ?thesis
    by (simp add: fle_def rv_def analyze_evidence_def offline_world_def bind_exc_def
        attr_get_def dict_get_def)
qed

subsection \<open>The two safety nets of a request\<close>

lemma verify_milestone_cases:
  "verify_milestone w self render request =
     (case combine_results render self (request_analysis w request)
             (request_verdict w self request) of
        Inr final_result \<Rightarrow> final_result | Inl e \<Rightarrow> failure_result e)"
  by (simp add: verify_milestone_def Let_def request_analysis_def request_verdict_def
      failure_result_def split: sum.split)

lemma mistyped_analysis:
  "request_analysis mistyped_world scenario2_message =
     [(''relevance'', PStr ''high''), (''completeness'', PFloat (lit (1/2))),
      (''authenticity'', PFloat (lit (1/2))), (''reasoning'', PStr ''Evidence analysis completed''),
      (''metadata'', PDict [])]"
  by (simp add: request_analysis_def analyze_evidence_def mistyped_world_def offline_world_def
      bind_exc_def attr_get_def dict_get_def)

lemma mistyped_combine:
  "combine_results render default_verifier (request_analysis mistyped_world scenario2_message)
      (request_verdict mistyped_world default_verifier scenario2_message) = Inl multiply_error"
  unfolding mistyped_analysis
  by (simp add: combine_results_def combined_confidence_of_def evidence_score_of_def
      dict_get_def mul_float_def bind_exc_def multiply_error_def)

lemma mistyped_verify:
  "verify_milestone mistyped_world default_verifier render scenario2_message
     = failure_result multiply_error"
  by (simp add: verify_milestone_cases mistyped_combine)

lemma deaf_verify:
  "verify_milestone deaf_world default_verifier render scenario2_message = scenario2_result"
proof -
  have "verify_milestone deaf_world default_verifier render scenario2_message
      = verify_milestone (offline_world (Inr scenario2_response)) default_verifier render
          scenario2_message"
    by (simp add: verify_milestone_def analyze_evidence_def get_agent_verdict_def
        call_asi_one_chat_def deaf_world_def offline_world_def)
  then show ?thesis by (simp add: scenario2_verify)
qed

text \<open>
  C7. An exception that escapes the stages of the pipeline is caught by
  \<^verbatim>\<open>verify_milestone\<close>, which returns a result with verdict "uncertain", confidence 0.0, a
  reasoning and an error field that carry the message; the handler sends that result in a
  verification_result envelope, as any other result, and no exception leaves the handler
  when the send succeeds. The envelope {type: "verification_error", request_id, error:
  message, timestamp} is what the handler sends when sending the result raises.
\<close>

theorem handler_safety_nets:
  "(combine_results render self (request_analysis w msg) (request_verdict w self msg) = Inl e
      \<longrightarrow> verify_milestone w self render msg = failure_result e
        \<and> map_of (failure_result e) ''verdict'' = Some (PStr ''uncertain'')
        \<and> map_of (failure_result e) ''confidence'' = Some (PFloat (Finite 0))
        \<and> map_of (failure_result e) ''error'' = Some (PStr (exc_str e)))
   \<and> (ctx_send w sender (result_envelope w msg (verify_milestone w self render msg)) = None
      \<longrightarrow> handle_verification_request w self render sender msg
            = ([(sender, result_envelope w msg (verify_milestone w self render msg))], None)
        \<and> map_of (result_envelope w msg (verify_milestone w self render msg)) ''type''
            = Some (PStr ''verification_result'')
        \<and> map_of (result_envelope w msg (verify_milestone w self render msg)) ''result''
            = Some (PDict (verify_milestone w self render msg)))
   \<and> (ctx_send w sender (result_envelope w msg (verify_milestone w self render msg)) = Some e'
        \<and> ctx_send w sender (error_envelope w msg e') = None
      \<longrightarrow> handle_verification_request w self render sender msg
            = ([(sender, error_envelope w msg e')], None)
        \<and> error_envelope w msg e'
            = [(''type'', PStr ''verification_error''),
               (''request_id'', dict_get msg ''request_id'' PNone),
               (''error'', PStr (exc_str e')),
               (''timestamp'', PStr (utcnow_isoformat w 1))])"
  by (simp add: verify_milestone_cases handle_verification_request_def Let_def
      failure_result_def result_envelope_def error_envelope_def)

theorem handler_safety_nets_witness:
  "verify_milestone mistyped_world default_verifier (\<lambda>v. []) scenario2_message
       = failure_result multiply_error
   \<and> map_of (failure_result multiply_error) ''verdict'' = Some (PStr ''uncertain'')
   \<and> map_of (failure_result multiply_error) ''confidence'' = Some (PFloat (Finite 0))
   \<and> handle_verification_request mistyped_world default_verifier (\<lambda>v. []) ''requester''
        scenario2_message
       = ([(''requester'', result_envelope mistyped_world scenario2_message
                             (failure_result multiply_error))], None)
   \<and> handle_verification_request deaf_world default_verifier (\<lambda>v. []) ''requester''
        scenario2_message
       = ([(''requester'', error_envelope deaf_world scenario2_message send_error)], None)
   \<and> map_of (error_envelope deaf_world scenario2_message send_error) ''type''
       = Some (PStr ''verification_error'')
   \<and> map_of (error_envelope deaf_world scenario2_message send_error) ''error''
       = Some (PStr ''peer unreachable'')"
proof -
  have s1: "ctx_send mistyped_world ''requester''
      (result_envelope mistyped_world scenario2_message
         (verify_milestone mistyped_world default_verifier (\<lambda>v. []) scenario2_message)) = None"
    by (simp add: mistyped_world_def offline_world_def)
  have s2: "ctx_send deaf_world ''requester''
      (result_envelope deaf_world scenario2_message
         (verify_milestone deaf_world default_verifier (\<lambda>v. []) scenario2_message))
      = Some send_error"
    by (simp add: deaf_world_def result_envelope_def)
  have s3: "ctx_send deaf_world ''requester''
      (error_envelope deaf_world scenario2_message send_error) = None"
    by (simp add: deaf_world_def error_envelope_def)
  show ?thesis
    using handler_safety_nets [of "\<lambda>v. []" default_verifier mistyped_world scenario2_message
        multiply_error "''requester''" send_error]
      handler_safety_nets [of "\<lambda>v. []" default_verifier deaf_world scenario2_message
        multiply_error "''requester''" send_error]
      mistyped_combine [of "\<lambda>v. []"] s1 s2 s3
    by (simp add: mistyped_verify error_envelope_def send_error_def)
qed

theorem stage_failure_sends_result:
  "combine_results (\<lambda>v. []) default_verifier (request_analysis mistyped_world scenario2_message)
      (request_verdict mistyped_world default_verifier scenario2_message) = Inl multiply_error
   \<and> handle_verification_request mistyped_world default_verifier (\<lambda>v. []) ''requester''
        scenario2_message
       = ([(''requester'', result_envelope mistyped_world scenario2_message
                             (failure_result multiply_error))], None)
   \<and> map_of (result_envelope mistyped_world scenario2_message (failure_result multiply_error))
        ''type'' = Some (PStr ''verification_result'')
   \<and> map_of (result_envelope mistyped_world scenario2_message (failure_result multiply_error))
        ''type'' \<noteq> Some (PStr ''verification_error'')"
  apply (simp add: mistyped_combine handle_verification_request_def Let_def mistyped_verify)
  apply (simp add: mistyped_world_def offline_world_def result_envelope_def)
  done


end
